theory Spec2Isabelle
  imports Main "HOL-Library.Sublist" "HOL-Library.AList"
begin

section \<open>Values, errors and the world\<close>

text \<open>
  The values a property-list document holds. A Python dict is an association list (its
  keys distinct, in the order of insertion); a method that may return Python's
  \<open>None\<close> returns a \<open>plist option\<close>.
\<close>

datatype plist =
    PStr string
  | PInt int
  | PBool bool
  | PList "plist list"
  | PDict "(string \<times> plist) list"

text \<open>The exceptions of the source and of the library calls it makes.\<close>

datatype error =
    PlistError
  | IllegalArgumentError
  | XctestrunError
  | BundleError
  | BuildError
  | IndexError
  | TypeError
  | AttributeError
  | IOError
  | OSError
  | ShutilError
  | ParseError

definition bindE :: "error + 'a \<Rightarrow> ('a \<Rightarrow> error + 'b) \<Rightarrow> error + 'b" where
  "bindE m f = (case m of Inl e \<Rightarrow> Inl e | Inr v \<Rightarrow> f v)"

text \<open>Python's truth value of a document value (\<open>if not x\<close>).\<close>

fun truthy :: "plist \<Rightarrow> bool" where
  "truthy (PStr s) = (s \<noteq> [])"
| "truthy (PInt i) = (i \<noteq> 0)"
| "truthy (PBool b) = b"
| "truthy (PList xs) = (xs \<noteq> [])"
| "truthy (PDict d) = (d \<noteq> [])"

text \<open>
  \<open>ios_constants.TestType\<close> and \<open>ios_constants.SDK\<close> are string constants of a
  module that is not among the sources. Modelled from the spec: the three test modes
  and the two SDK targets (device and simulator), each a non-empty string; any other
  string a caller passes is \<open>OTHER_TEST_TYPE s\<close> or \<open>OTHER_SDK s\<close>.
\<close>

datatype TestType = XCUITEST | XCTEST | LOGIC_TEST | OTHER_TEST_TYPE string

datatype SDK = IPHONEOS | IPHONESIMULATOR | OTHER_SDK string

fun test_type_truthy :: "TestType option \<Rightarrow> bool" where
  "test_type_truthy None = False"
| "test_type_truthy (Some (OTHER_TEST_TYPE s)) = (s \<noteq> [])"
| "test_type_truthy (Some _) = True"

definition SUPPORTED_SDKS :: "SDK list" where
  "SUPPORTED_SDKS = [IPHONEOS, IPHONESIMULATOR]"

definition SUPPORTED_TEST_TYPES :: "TestType list" where
  "SUPPORTED_TEST_TYPES = [XCUITEST, XCTEST, LOGIC_TEST]"

text \<open>
  The file system: a table from paths to nodes, in listing order. A file written by
  the document store holds the document (\<open>Doc\<close>); a file written as text holds the
  text (\<open>Text\<close>). The log is what \<open>logging\<close> has been given: the message of an
  \<open>info\<close> call with its arguments, and the exception a \<open>warning\<close> call reports.
\<close>

type_synonym path = string

datatype content = Doc plist | Text string

datatype node = Dir | File content | Link path

datatype log_record = Info string "SDK list" | Warning error

record world =
  files :: "(path \<times> node) list"
  log :: "log_record list"

subsection \<open>Paths (posixpath)\<close>

definition basename :: "path \<Rightarrow> string" where
  "basename p = rev (takeWhile (\<lambda>c. c \<noteq> CHR ''/'') (rev p))"

definition dirname :: "path \<Rightarrow> path" where
  "dirname p =
     (let head = rev (dropWhile (\<lambda>c. c \<noteq> CHR ''/'') (rev p))
      in if head \<noteq> [] \<and> (\<exists>c \<in> set head. c \<noteq> CHR ''/'')
         then rev (dropWhile (\<lambda>c. c = CHR ''/'') (rev head))
         else head)"

definition join :: "path \<Rightarrow> path \<Rightarrow> path" where
  "join a b =
     (if b \<noteq> [] \<and> hd b = CHR ''/'' then b
      else if a = [] \<or> last a = CHR ''/'' then a @ b
      else a @ ''/'' @ b)"

text \<open>Python's \<open>s.split(sep)\<close> for a one-character separator.\<close>

fun split_on :: "char \<Rightarrow> string \<Rightarrow> string list" where
  "split_on c [] = [[]]"
| "split_on c (x # xs) =
     (if x = c then [] # split_on c xs
      else (case split_on c xs of [] \<Rightarrow> [[x]] | w # ws \<Rightarrow> (x # w) # ws))"

text \<open>\<open>os.path.splitext(name)[0]\<close> for a name without a slash.\<close>

definition splitext_root :: "string \<Rightarrow> string" where
  "splitext_root name =
     (let stem = rev (drop 1 (dropWhile (\<lambda>c. c \<noteq> CHR ''.'') (rev name)))
      in if CHR ''.'' \<in> set name \<and> (\<exists>c \<in> set stem. c \<noteq> CHR ''.'') then stem else name)"

subsection \<open>Files: lookups, reading and writing\<close>

text \<open>A path is followed through symbolic links, at most 32 of them.\<close>

fun follow :: "nat \<Rightarrow> (path \<times> node) list \<Rightarrow> path \<Rightarrow> (path \<times> node) option" where
  "follow 0 fs p = None"
| "follow (Suc n) fs p =
     (case map_of fs p of
        None \<Rightarrow> None
      | Some (Link t) \<Rightarrow> follow n fs t
      | Some nd \<Rightarrow> Some (p, nd))"

definition stat :: "world \<Rightarrow> path \<Rightarrow> (path \<times> node) option" where
  "stat w p = follow 32 (files w) p"

definition path_exists :: "world \<Rightarrow> path \<Rightarrow> bool" where
  "path_exists w p = (stat w p \<noteq> None)"

definition islink :: "world \<Rightarrow> path \<Rightarrow> bool" where
  "islink w p = (case map_of (files w) p of Some (Link t) \<Rightarrow> True | _ \<Rightarrow> False)"

definition isdir :: "world \<Rightarrow> path \<Rightarrow> bool" where
  "isdir w p = (case stat w p of Some (q, Dir) \<Rightarrow> True | _ \<Rightarrow> False)"

text \<open>The directory a new entry is created in: the current directory, the root, or a
  directory of the table.\<close>

definition parent_ok :: "world \<Rightarrow> path \<Rightarrow> bool" where
  "parent_ok w p = (dirname p = [] \<or> dirname p = ''/'' \<or> isdir w (dirname p))"

definition read_file :: "world \<Rightarrow> path \<Rightarrow> error + content" where
  "read_file w p = (case stat w p of Some (q, File c) \<Rightarrow> Inr c | _ \<Rightarrow> Inl IOError)"

definition write_file :: "path \<Rightarrow> content \<Rightarrow> world \<Rightarrow> error + world" where
  "write_file p c w =
     (case stat w p of
        Some (q, File old) \<Rightarrow> Inr (w\<lparr>files := AList.update q (File c) (files w)\<rparr>)
      | Some (q, nd) \<Rightarrow> Inl IOError
      | None \<Rightarrow>
          if map_of (files w) p = None \<and> parent_ok w p
          then Inr (w\<lparr>files := AList.update p (File c) (files w)\<rparr>)
          else Inl IOError)"

definition logging_info :: "string \<Rightarrow> SDK list \<Rightarrow> world \<Rightarrow> world" where
  "logging_info msg args w = w\<lparr>log := log w @ [Info msg args]\<rparr>"

definition logging_warning :: "error \<Rightarrow> world \<Rightarrow> world" where
  "logging_warning e w = w\<lparr>log := log w @ [Warning e]\<rparr>"

section \<open>The document store\<close>

text \<open>
  The environment of a run: the property-list codec (Python's plistlib, which reads
  and writes the text of a document).
\<close>

record codec =
  parse :: "string \<Rightarrow> plist option"
  serialise :: "plist \<Rightarrow> string"

definition load_plist :: "codec \<Rightarrow> path \<Rightarrow> world \<Rightarrow> error + plist" where
  "load_plist cd p w =
     bindE (read_file w p) (\<lambda>c.
       case c of
         Doc d \<Rightarrow> Inr d
       | Text s \<Rightarrow> (case parse cd s of Some d \<Rightarrow> Inr d | None \<Rightarrow> Inl ParseError))"

definition read_text :: "codec \<Rightarrow> path \<Rightarrow> world \<Rightarrow> error + string" where
  "read_text cd p w =
     bindE (read_file w p) (\<lambda>c.
       case c of Doc d \<Rightarrow> Inr (serialise cd d) | Text s \<Rightarrow> Inr s)"

text \<open>
  Modelled from the spec: \<open>plist_util.Plist\<close>, the hierarchical document store over one
  file, which is not among the sources. A field path is a sequence of mapping keys
  joined by a colon; resolving it walks the document key by key and fails with a lookup
  error (\<open>PlistError\<close>) when a key is absent or the value reached is not a mapping.
  Setting a field writes the value under the last key of the path, overwriting what is
  there; the keys before it must resolve (no mapping is created on the way). Deleting a
  field removes the last key, and fails when it is absent. The document of a file that
  does not exist yet is the empty mapping. Every call reads the file and every change
  is written to it at once: \<open>GenerateXctestrun\<close> reads the file as text after the
  fields have been set through the store.
\<close>

fun walk :: "plist \<Rightarrow> string list \<Rightarrow> error + plist" where
  "walk v [] = Inr v"
| "walk (PDict d) (k # ks) =
     (case map_of d k of None \<Rightarrow> Inl PlistError | Some v \<Rightarrow> walk v ks)"
| "walk v (k # ks) = Inl PlistError"

fun set_at :: "plist \<Rightarrow> string list \<Rightarrow> plist \<Rightarrow> error + plist" where
  "set_at v [] x = Inr x"
| "set_at (PDict d) [k] x = Inr (PDict (AList.update k x d))"
| "set_at (PDict d) (k # ks) x =
     (case map_of d k of
        None \<Rightarrow> Inl PlistError
      | Some v \<Rightarrow> bindE (set_at v ks x) (\<lambda>v'. Inr (PDict (AList.update k v' d))))"
| "set_at v (k # ks) x = Inl PlistError"

fun delete_at :: "plist \<Rightarrow> string list \<Rightarrow> error + plist" where
  "delete_at v [] = Inl PlistError"
| "delete_at (PDict d) [k] =
     (case map_of d k of
        None \<Rightarrow> Inl PlistError
      | Some v \<Rightarrow> Inr (PDict (AList.delete k d)))"
| "delete_at (PDict d) (k # ks) =
     (case map_of d k of
        None \<Rightarrow> Inl PlistError
      | Some v \<Rightarrow> bindE (delete_at v ks) (\<lambda>v'. Inr (PDict (AList.update k v' d))))"
| "delete_at v (k # ks) = Inl PlistError"

definition field_keys :: "string option \<Rightarrow> string list" where
  "field_keys field = (case field of None \<Rightarrow> [] | Some f \<Rightarrow> split_on CHR '':'' f)"

definition GetPlistField :: "codec \<Rightarrow> path \<Rightarrow> string option \<Rightarrow> world \<Rightarrow> error + plist" where
  "GetPlistField cd p field w =
     bindE (load_plist cd p w) (\<lambda>doc. walk doc (field_keys field))"

definition SetPlistField ::
  "codec \<Rightarrow> path \<Rightarrow> string option \<Rightarrow> plist \<Rightarrow> world \<Rightarrow> error + world" where
  "SetPlistField cd p field v w =
     bindE (if path_exists w p then load_plist cd p w else Inr (PDict [])) (\<lambda>doc.
     bindE (set_at doc (field_keys field) v) (\<lambda>doc'.
     write_file p (Doc doc') w))"

definition DeletePlistField :: "codec \<Rightarrow> path \<Rightarrow> string \<Rightarrow> world \<Rightarrow> error + world" where
  "DeletePlistField cd p field w =
     bindE (load_plist cd p w) (\<lambda>doc.
     bindE (delete_at doc (split_on CHR '':'' field)) (\<lambda>doc'.
     write_file p (Doc doc') w))"

section \<open>XctestRun: the configuration document of one test run\<close>

text \<open>
  An \<open>XctestRun\<close> object: the path of its file (the document store is opened on the
  same path), the root key found when the object was made, and the test type given or
  inferred. The method \<open>Run\<close>, which hands the file to the external test executor, is
  left out.
\<close>

record XctestRun =
  xr_file_path :: path
  xr_root_key :: string
  xr_test_type :: "TestType option"

definition rooted :: "XctestRun \<Rightarrow> string \<Rightarrow> string option" where
  "rooted x field = Some (xr_root_key x @ '':'' @ field)"

definition XctestRun_init ::
  "codec \<Rightarrow> path \<Rightarrow> TestType option \<Rightarrow> world \<Rightarrow> error + XctestRun" where
  "XctestRun_init cd xctestrun_file_path test_type w =
     bindE (GetPlistField cd xctestrun_file_path None w) (\<lambda>root.
       case root of
         PDict [] \<Rightarrow> Inl IndexError
       | PDict ((k, v) # rest) \<Rightarrow>
           Inr \<lparr>xr_file_path = xctestrun_file_path, xr_root_key = k,
                xr_test_type = test_type\<rparr>
       | _ \<Rightarrow> Inl AttributeError)"

definition GetXctestrunField ::
  "codec \<Rightarrow> XctestRun \<Rightarrow> string \<Rightarrow> world \<Rightarrow> error + plist option" where
  "GetXctestrunField cd x field w =
     (case GetPlistField cd (xr_file_path x) (rooted x field) w of
        Inr v \<Rightarrow> Inr (Some v)
      | Inl PlistError \<Rightarrow> Inr None
      | Inl e \<Rightarrow> Inl e)"

definition HasXctestrunField ::
  "codec \<Rightarrow> XctestRun \<Rightarrow> string \<Rightarrow> world \<Rightarrow> error + bool" where
  "HasXctestrunField cd x field w =
     (case GetPlistField cd (xr_file_path x) (rooted x field) w of
        Inr v \<Rightarrow> Inr True
      | Inl PlistError \<Rightarrow> Inr False
      | Inl e \<Rightarrow> Inl e)"

definition SetXctestrunField ::
  "codec \<Rightarrow> XctestRun \<Rightarrow> string \<Rightarrow> plist \<Rightarrow> world \<Rightarrow> error + world" where
  "SetXctestrunField cd x field v w =
     SetPlistField cd (xr_file_path x) (rooted x field) v w"

definition DeleteXctestrunField ::
  "codec \<Rightarrow> XctestRun \<Rightarrow> string \<Rightarrow> world \<Rightarrow> error + world" where
  "DeleteXctestrunField cd x field w =
     DeletePlistField cd (xr_file_path x) (xr_root_key x @ '':'' @ field) w"

text \<open>
  \<open>for key, value in env_vars.items(): d[key] = value\<close>: item assignment with a string
  key works on a dict only; on any other value it raises TypeError.
\<close>

fun assign_items :: "plist \<Rightarrow> (string \<times> string) list \<Rightarrow> error + plist" where
  "assign_items v [] = Inr v"
| "assign_items (PDict d) ((k, x) # kvs) = assign_items (PDict (AList.update k (PStr x) d)) kvs"
| "assign_items v (kv # kvs) = Inl TypeError"

definition or_empty_dict :: "plist option \<Rightarrow> plist" where
  "or_empty_dict r = (case r of None \<Rightarrow> PDict [] | Some v \<Rightarrow> if truthy v then v else PDict [])"

definition SetTestEnvVars ::
  "codec \<Rightarrow> XctestRun \<Rightarrow> (string \<times> string) list \<Rightarrow> world \<Rightarrow> error + world" where
  "SetTestEnvVars cd x env_vars w =
     (if env_vars = [] then Inr w
      else
        bindE (GetXctestrunField cd x ''EnvironmentVariables'' w) (\<lambda>test_env_vars.
        bindE (assign_items (or_empty_dict test_env_vars) env_vars) (\<lambda>test_env_vars'.
        SetXctestrunField cd x ''EnvironmentVariables'' test_env_vars' w)))"

definition SetTestArgs :: "codec \<Rightarrow> XctestRun \<Rightarrow> string list \<Rightarrow> world \<Rightarrow> error + world" where
  "SetTestArgs cd x args w =
     (if args = [] then Inr w
      else SetXctestrunField cd x ''CommandLineArguments'' (PList (map PStr args)) w)"

definition SetAppUnderTestEnvVars ::
  "codec \<Rightarrow> XctestRun \<Rightarrow> (string \<times> string) list \<Rightarrow> world \<Rightarrow> error + world" where
  "SetAppUnderTestEnvVars cd x env_vars w =
     (if env_vars = [] then Inr w
      else
        let key = (if xr_test_type x = Some XCUITEST then ''UITargetAppEnvironmentVariables''
                   else ''EnvironmentVariables'')
        in
        bindE (GetXctestrunField cd x key w) (\<lambda>aut_env_vars.
        bindE (assign_items (or_empty_dict aut_env_vars) env_vars) (\<lambda>aut_env_vars'.
        SetXctestrunField cd x key aut_env_vars' w)))"

definition SetAppUnderTestArgs ::
  "codec \<Rightarrow> XctestRun \<Rightarrow> string list \<Rightarrow> world \<Rightarrow> error + world" where
  "SetAppUnderTestArgs cd x args w =
     (if args = [] then Inr w
      else
        let key = (if xr_test_type x = Some XCUITEST then ''UITargetAppCommandLineArguments''
                   else ''CommandLineArguments'')
        in SetXctestrunField cd x key (PList (map PStr args)) w)"

definition SetTestsToRun ::
  "codec \<Rightarrow> XctestRun \<Rightarrow> string list \<Rightarrow> world \<Rightarrow> error + world" where
  "SetTestsToRun cd x tests_to_run w =
     (if tests_to_run = [] \<or> tests_to_run = [''all''] then Inr w
      else SetXctestrunField cd x ''OnlyTestIdentifiers'' (PList (map PStr tests_to_run)) w)"

definition SetSkipTests ::
  "codec \<Rightarrow> XctestRun \<Rightarrow> string list \<Rightarrow> world \<Rightarrow> error + world" where
  "SetSkipTests cd x skip_tests w =
     (if skip_tests = [] then Inr w
      else SetXctestrunField cd x ''SkipTestIdentifiers'' (PList (map PStr skip_tests)) w)"

text \<open>
  The property \<open>test_type\<close>: it returns the stored test type, after inferring and
  storing it when none is stored. The object is returned with the value.
\<close>

definition test_type ::
  "codec \<Rightarrow> XctestRun \<Rightarrow> world \<Rightarrow> error + (TestType option \<times> XctestRun)" where
  "test_type cd x w =
     (if \<not> test_type_truthy (xr_test_type x) then
        bindE (HasXctestrunField cd x ''UITargetAppPath'' w) (\<lambda>has.
          let x' = (if has then x\<lparr>xr_test_type := Some XCUITEST\<rparr>
                    else x\<lparr>xr_test_type := Some XCTEST\<rparr>)
          in Inr (xr_test_type x', x'))
      else Inr (xr_test_type x, x))"


section \<open>Effects on the world\<close>

text \<open>
  A call that may raise and may change the world returns the exception or the value,
  and the world as it stands then: what was written before an exception stays written.
\<close>

type_synonym 'a io = "world \<Rightarrow> (error + 'a) \<times> world"

definition returnIO :: "'a \<Rightarrow> 'a io" where
  "returnIO v = (\<lambda>w. (Inr v, w))"

definition raiseIO :: "error \<Rightarrow> 'a io" where
  "raiseIO e = (\<lambda>w. (Inl e, w))"

definition bindIO :: "'a io \<Rightarrow> ('a \<Rightarrow> 'b io) \<Rightarrow> 'b io" where
  "bindIO m f = (\<lambda>w. case m w of (Inl e, w') \<Rightarrow> (Inl e, w') | (Inr v, w') \<Rightarrow> f v w')"

definition liftW :: "(world \<Rightarrow> error + world) \<Rightarrow> unit io" where
  "liftW m = (\<lambda>w. case m w of Inl e \<Rightarrow> (Inl e, w) | Inr w' \<Rightarrow> (Inr (), w'))"

definition liftR :: "(world \<Rightarrow> error + 'a) \<Rightarrow> 'a io" where
  "liftR m = (\<lambda>w. (m w, w))"

text \<open>A path argument that is \<open>None\<close> where a string is needed raises TypeError.\<close>

definition need :: "'a option \<Rightarrow> 'a io" where
  "need v = (case v of None \<Rightarrow> raiseIO TypeError | Some x \<Rightarrow> returnIO x)"


section \<open>XctestRunFactory: generating the document\<close>

text \<open>
  What the factory is given by the machine it runs on, each at its interface.

  The property-list codec, and the library calls the source makes on whole paths:
  \<open>os.path.exists\<close>, \<open>os.path.islink\<close>, \<open>os.mkdir\<close>, \<open>shutil.rmtree\<close>,
  \<open>shutil.move\<close>, \<open>shutil.copytree\<close>, \<open>glob.glob\<close> (given the pattern as the
  source formats it) and \<open>tempfile.mkdtemp\<close>. A call may raise and may change the
  world; nothing more is assumed of it. An example machine over the table of files is
  defined with the example data.

  Modelled from the spec: the toolchain path discovery (\<open>xcode_info_util\<close>); the
  throwaway harness project with its build-for-testing step
  (\<open>dummy_project.DummyProject\<close>, one call for the whole \<open>with\<close> block); and
  \<open>bundle_util.EnableUIFileSharing\<close>. None of them is among the sources.

  A method of the factory returns the factory as it has changed it; when it raises, the
  world is kept and the fields assigned so far are not.
\<close>

record dummy_build =
  db_app_under_test_dir :: "path option"
  db_test_bundle_dir :: path
  db_sdk :: SDK
  db_test_type :: TestType
  db_work_dir :: path
  db_provisioning_profile :: "plist option"
  db_build_products_dir :: path
  db_derived_data_dir :: path

record env =
  plist_codec :: codec
  os_path_exists :: "path \<Rightarrow> world \<Rightarrow> bool"
  os_path_islink :: "path \<Rightarrow> world \<Rightarrow> bool"
  os_mkdir :: "path \<Rightarrow> unit io"
  shutil_rmtree :: "path \<Rightarrow> unit io"
  shutil_move :: "path \<Rightarrow> path \<Rightarrow> unit io"
  shutil_copytree :: "path \<Rightarrow> path \<Rightarrow> unit io"
  glob_glob :: "string \<Rightarrow> world \<Rightarrow> path list"
  mkdtemp :: "path io"
  GetXctestToolPath :: "SDK \<Rightarrow> path"
  GetSdkPlatformPath :: "SDK \<Rightarrow> path"
  DummyProject_BuildForTesting :: "dummy_build \<Rightarrow> unit io"
  EnableUIFileSharing :: "path \<Rightarrow> unit io"

record XctestRunFactory =
  app_under_test_dir :: "path option"
  test_bundle_dir :: path
  test_name :: string
  f_sdk :: SDK
  f_test_type :: TestType
  signing_options :: "(string \<times> plist) list option"
  work_dir :: "path option"
  test_root_dir :: "path option"
  xctestrun_file_path :: "path option"
  xctestrun_obj :: "XctestRun option"
  delete_work_dir :: bool

definition TESTROOT_RELATIVE_PATH :: string where
  "TESTROOT_RELATIVE_PATH = ''__TESTROOT__''"

text \<open>Truth values of an optional dict and of an optional string.\<close>

definition dict_truthy :: "(string \<times> plist) list option \<Rightarrow> bool" where
  "dict_truthy d = (case d of None \<Rightarrow> False | Some kvs \<Rightarrow> kvs \<noteq> [])"

definition nonempty :: "string option \<Rightarrow> string option" where
  "nonempty s = (case s of None \<Rightarrow> None | Some p \<Rightarrow> if p = [] then None else Some p)"

text \<open>\<open>self._signing_options and self._signing_options.get(key)\<close>, when it is true.\<close>

definition signing_option :: "XctestRunFactory \<Rightarrow> string \<Rightarrow> plist option" where
  "signing_option f key =
     (case signing_options f of
        None \<Rightarrow> None
      | Some so \<Rightarrow>
          (case map_of so key of
             None \<Rightarrow> None
           | Some v \<Rightarrow> if truthy v then Some v else None))"

definition ValidateArguments :: "XctestRunFactory \<Rightarrow> error + unit" where
  "ValidateArguments f =
     (if f_sdk f \<notin> set SUPPORTED_SDKS then Inl IllegalArgumentError
      else if f_test_type f \<notin> set SUPPORTED_TEST_TYPES then Inl IllegalArgumentError
      else if f_test_type f = LOGIC_TEST \<and> f_sdk f \<noteq> IPHONESIMULATOR
      then Inl IllegalArgumentError
      else Inr ())"

definition XctestRunFactory_init ::
  "path option \<Rightarrow> path \<Rightarrow> SDK \<Rightarrow> TestType \<Rightarrow> (string \<times> plist) list option \<Rightarrow> path option
    \<Rightarrow> XctestRunFactory io" where
  "XctestRunFactory_init app_dir bundle_dir sdk ttype signing wdir = (\<lambda>w.
     let w1 = (if sdk = IPHONEOS then w
               else if \<not> dict_truthy signing
               then logging_info
                 ''The signing options only works on sdk iphoneos, but current sdk is %s'' [sdk] w
               else w);
         f = \<lparr>app_under_test_dir = app_dir,
              test_bundle_dir = bundle_dir,
              test_name = splitext_root (basename bundle_dir),
              f_sdk = sdk,
              f_test_type = ttype,
              signing_options = (if sdk = IPHONEOS then signing else Some []),
              work_dir = wdir,
              test_root_dir = None,
              xctestrun_file_path = None,
              xctestrun_obj = None,
              delete_work_dir = False\<rparr>
     in case ValidateArguments f of Inl e \<Rightarrow> (Inl e, w1) | Inr u \<Rightarrow> (Inr f, w1))"

definition MoveAndReplaceFile :: "env \<Rightarrow> path \<Rightarrow> path \<Rightarrow> path io" where
  "MoveAndReplaceFile env src_file target_parent_dir =
     (let new_file_path = join target_parent_dir (basename src_file)
      in bindIO (\<lambda>w. if os_path_exists env new_file_path w
                      then shutil_rmtree env new_file_path w else (Inr (), w))
           (\<lambda>u. bindIO (shutil_move env src_file new_file_path) (\<lambda>u. returnIO new_file_path)))"

text \<open>Lines 305 to 323 of \<open>GenerateXctestrun\<close>: the working directory, the canonical
  root in it, and the two bundles moved there.\<close>

definition prepare_test_root :: "env \<Rightarrow> XctestRunFactory \<Rightarrow> XctestRunFactory io" where
  "prepare_test_root env f =
     bindIO
       (case nonempty (work_dir f) of
          Some wd \<Rightarrow> (\<lambda>w. if \<not> os_path_exists env wd w
                             then bindIO (os_mkdir env wd) (\<lambda>u. returnIO f) w
                             else (Inr f, w))
        | None \<Rightarrow> bindIO (mkdtemp env)
                    (\<lambda>d. returnIO (f\<lparr>work_dir := Some d, delete_work_dir := True\<rparr>)))
       (\<lambda>f1. bindIO (need (work_dir f1))
       (\<lambda>wd. let tr = join wd ''TEST_ROOT''; f2 = f1\<lparr>test_root_dir := Some tr\<rparr> in
         bindIO (\<lambda>w. if \<not> os_path_exists env tr w then os_mkdir env tr w else (Inr (), w))
       (\<lambda>u. bindIO
         (case nonempty (app_under_test_dir f2) of
            Some app \<Rightarrow> bindIO (MoveAndReplaceFile env app tr)
                          (\<lambda>app'. returnIO (f2\<lparr>app_under_test_dir := Some app'\<rparr>))
          | None \<Rightarrow> returnIO f2)
       (\<lambda>f3. bindIO (MoveAndReplaceFile env (test_bundle_dir f3) tr)
       (\<lambda>bundle'. returnIO (f3\<lparr>test_bundle_dir := bundle'\<rparr>))))))"

definition derived_data_dir :: "path \<Rightarrow> path" where
  "derived_data_dir wd = join wd ''dummyproject_derived_data''"

definition build_products_dir :: "path \<Rightarrow> path" where
  "build_products_dir wd = join (join (derived_data_dir wd) ''Build'') ''Products''"

definition canonical_xctestrun :: "path \<Rightarrow> path" where
  "canonical_xctestrun tr = join tr ''xctestrun.plist''"

subsection \<open>The pipeline of the UI-driven mode\<close>

text \<open>Lines 373 to 437 of \<open>_GenerateXctestrunFileForXcuitest\<close>: the build, the runner
  application harvested into the canonical root, and the test bundle put into its
  plug-ins. The result is the factory and the path of the runner application.\<close>

definition xcuitest_harvest_runner ::
  "env \<Rightarrow> XctestRunFactory \<Rightarrow> (XctestRunFactory \<times> path) io" where
  "xcuitest_harvest_runner env f =
     bindIO (need (work_dir f))
     (\<lambda>wd. bindIO (need (test_root_dir f))
     (\<lambda>tr. bindIO
       (DummyProject_BuildForTesting env
          \<lparr>db_app_under_test_dir = app_under_test_dir f,
           db_test_bundle_dir = test_bundle_dir f,
           db_sdk = f_sdk f,
           db_test_type = f_test_type f,
           db_work_dir = wd,
           db_provisioning_profile = signing_option f ''xctrunner_app_provisioning_profile'',
           db_build_products_dir = tr,
           db_derived_data_dir = derived_data_dir wd\<rparr>)
     (\<lambda>u w.
        case glob_glob env (build_products_dir wd @ ''/Debug-*/*-Runner.app'') w of
          [] \<Rightarrow> (Inl XctestrunError, w)
        | app # others \<Rightarrow>
            if others \<noteq> [] then (Inl XctestrunError, w)
            else
              (let xctrunner_app_dir = join tr (basename app);
                   xctrunner_plugins_dir = join xctrunner_app_dir ''PlugIns''
               in
               bindIO (shutil_move env app xctrunner_app_dir)
               (\<lambda>u. bindIO
                 (case signing_option f ''xctrunner_app_enable_ui_file_sharing'' of
                    None \<Rightarrow> returnIO ()
                  | Some v \<Rightarrow>
                      (\<lambda>w1. case EnableUIFileSharing env xctrunner_app_dir w1 of
                               (Inl BundleError, w2) \<Rightarrow> (Inr (), logging_warning BundleError w2)
                             | r \<Rightarrow> r))
               (\<lambda>u. bindIO
                 (\<lambda>w1. if os_path_exists env xctrunner_plugins_dir w1
                         then shutil_rmtree env xctrunner_plugins_dir w1 else (Inr (), w1))
               (\<lambda>u. bindIO (os_mkdir env xctrunner_plugins_dir)
               (\<lambda>u w1.
                  if os_path_islink env (test_bundle_dir f) w1 then
                    (let new_test_bundle_path =
                           join xctrunner_plugins_dir (basename (test_bundle_dir f))
                     in bindIO (shutil_copytree env (test_bundle_dir f) new_test_bundle_path)
                          (\<lambda>u. returnIO
                             (f\<lparr>test_bundle_dir := new_test_bundle_path\<rparr>, xctrunner_app_dir))
                          w1)
                  else
                    bindIO (MoveAndReplaceFile env (test_bundle_dir f) xctrunner_plugins_dir)
                      (\<lambda>b. returnIO (f\<lparr>test_bundle_dir := b\<rparr>, xctrunner_app_dir))
                      w1)))) w))))"

text \<open>Lines 439 to 461: the generated document harvested and patched.\<close>

definition xcuitest_harvest_xctestrun ::
  "env \<Rightarrow> XctestRunFactory \<Rightarrow> path \<Rightarrow> XctestRunFactory io" where
  "xcuitest_harvest_xctestrun env f xctrunner_app_dir =
     bindIO (need (work_dir f))
     (\<lambda>wd. bindIO (need (test_root_dir f))
     (\<lambda>tr w.
        case glob_glob env (build_products_dir wd @ ''/*.xctestrun'') w of
          [] \<Rightarrow> (Inl XctestrunError, w)
        | generated # others \<Rightarrow>
            (let cd = plist_codec env;
                 f1 = f\<lparr>xctestrun_file_path := Some (canonical_xctestrun tr)\<rparr>
             in
             bindIO (shutil_move env generated (canonical_xctestrun tr))
             (\<lambda>u. bindIO (liftR (XctestRun_init cd (canonical_xctestrun tr) (Some (f_test_type f))))
             (\<lambda>x. bindIO (liftW (SetXctestrunField cd x ''TestHostPath'' (PStr xctrunner_app_dir)))
             (\<lambda>u. bindIO (need (app_under_test_dir f))
             (\<lambda>app. bindIO (liftW (SetXctestrunField cd x ''UITargetAppPath'' (PStr app)))
             (\<lambda>u. bindIO
               (liftW (SetXctestrunField cd x ''TestBundlePath'' (PStr (test_bundle_dir f))))
             (\<lambda>u. bindIO
               (liftW (DeleteXctestrunField cd x
                  ''TestingEnvironmentVariables:IDEiPhoneInternalTestBundleName''))
             (\<lambda>u. returnIO (f1\<lparr>xctestrun_obj := Some x\<rparr>)))))))) w)))"

definition GenerateXctestrunFileForXcuitest ::
  "env \<Rightarrow> XctestRunFactory \<Rightarrow> XctestRunFactory io" where
  "GenerateXctestrunFileForXcuitest env f =
     bindIO (xcuitest_harvest_runner env f)
       (\<lambda>(f1, xctrunner_app_dir). xcuitest_harvest_xctestrun env f1 xctrunner_app_dir)"

subsection \<open>The pipeline of the unit-test mode\<close>

text \<open>Lines 470 to 492 of \<open>_GenerateXctestrunFileForXctest\<close>: the build, and the test
  bundle put into the plug-ins of the app under test.\<close>

definition xctest_place_bundle :: "env \<Rightarrow> XctestRunFactory \<Rightarrow> XctestRunFactory io" where
  "xctest_place_bundle env f =
     bindIO (need (work_dir f))
     (\<lambda>wd. bindIO (need (test_root_dir f))
     (\<lambda>tr. bindIO
       (DummyProject_BuildForTesting env
          \<lparr>db_app_under_test_dir = app_under_test_dir f,
           db_test_bundle_dir = test_bundle_dir f,
           db_sdk = f_sdk f,
           db_test_type = f_test_type f,
           db_work_dir = wd,
           db_provisioning_profile = None,
           db_build_products_dir = tr,
           db_derived_data_dir = derived_data_dir wd\<rparr>)
     (\<lambda>u. bindIO (need (app_under_test_dir f))
     (\<lambda>app.
        let app_under_test_plugins_dir = join app ''PlugIns'';
            new_test_bundle_path = join app_under_test_plugins_dir (basename (test_bundle_dir f))
        in
        bindIO (\<lambda>w. if \<not> os_path_exists env app_under_test_plugins_dir w
                      then os_mkdir env app_under_test_plugins_dir w else (Inr (), w))
        (\<lambda>u w.
           if os_path_islink env (test_bundle_dir f) w then
             bindIO (shutil_copytree env (test_bundle_dir f) new_test_bundle_path)
               (\<lambda>u. returnIO (f\<lparr>test_bundle_dir := new_test_bundle_path\<rparr>)) w
           else if new_test_bundle_path \<noteq> test_bundle_dir f then
             bindIO (MoveAndReplaceFile env (test_bundle_dir f) app_under_test_plugins_dir)
               (\<lambda>b. returnIO (f\<lparr>test_bundle_dir := b\<rparr>)) w
           else (Inr f, w))))))"

text \<open>Lines 503 to 518: the generated document harvested and patched.\<close>

definition xctest_harvest_xctestrun :: "env \<Rightarrow> XctestRunFactory \<Rightarrow> XctestRunFactory io" where
  "xctest_harvest_xctestrun env f =
     bindIO (need (work_dir f))
     (\<lambda>wd. bindIO (need (test_root_dir f))
     (\<lambda>tr w.
        case glob_glob env (build_products_dir wd @ ''/*.xctestrun'') w of
          [] \<Rightarrow> (Inl XctestrunError, w)
        | generated # others \<Rightarrow>
            (let cd = plist_codec env;
                 f1 = f\<lparr>xctestrun_file_path := Some (canonical_xctestrun tr)\<rparr>
             in
             bindIO (shutil_move env generated (canonical_xctestrun tr))
             (\<lambda>u. bindIO (liftR (XctestRun_init cd (canonical_xctestrun tr) (Some (f_test_type f))))
             (\<lambda>x. bindIO
               (liftW (SetXctestrunField cd x ''TestBundlePath'' (PStr (test_bundle_dir f))))
             (\<lambda>u. returnIO (f1\<lparr>xctestrun_obj := Some x\<rparr>)))) w)))"

definition GenerateXctestrunFileForXctest ::
  "env \<Rightarrow> XctestRunFactory \<Rightarrow> XctestRunFactory io" where
  "GenerateXctestrunFileForXctest env f =
     bindIO (xctest_place_bundle env f) (xctest_harvest_xctestrun env)"

subsection \<open>The pipeline of the standalone logic-test mode\<close>

definition first_part :: "string list \<Rightarrow> string" where
  "first_part parts = (case parts of [] \<Rightarrow> [] | p # ps \<Rightarrow> p)"

definition GenerateXctestrunFileForLogicTest ::
  "env \<Rightarrow> XctestRunFactory \<Rightarrow> XctestRunFactory io" where
  "GenerateXctestrunFileForLogicTest env f =
     bindIO (need (test_root_dir f))
     (\<lambda>tr.
        let cd = plist_codec env;
            f1 = f\<lparr>xctestrun_file_path := Some (canonical_xctestrun tr)\<rparr>;
            test_bundle_name = first_part (split_on CHR ''.'' (basename (test_bundle_dir f)));
            dyld_framework_path =
              join (GetSdkPlatformPath env (f_sdk f)) ''Developer/Library/Frameworks''
        in
        bindIO (liftW (SetPlistField cd (canonical_xctestrun tr) (Some test_bundle_name) (PDict [])))
        (\<lambda>u. bindIO (liftR (XctestRun_init cd (canonical_xctestrun tr) (Some (f_test_type f))))
        (\<lambda>x. bindIO
          (liftW (SetXctestrunField cd x ''TestBundlePath'' (PStr (test_bundle_dir f))))
        (\<lambda>u. bindIO
          (liftW (SetXctestrunField cd x ''TestHostPath''
             (PStr (GetXctestToolPath env (f_sdk f)))))
        (\<lambda>u. bindIO
          (liftW (SetXctestrunField cd x ''TestingEnvironmentVariables''
             (PDict [(''DYLD_FRAMEWORK_PATH'', PStr dyld_framework_path),
                     (''DYLD_LIBRARY_PATH'', PStr dyld_framework_path)])))
        (\<lambda>u. returnIO (f1\<lparr>xctestrun_obj := Some x\<rparr>)))))))"

subsection \<open>GenerateXctestrun\<close>

text \<open>
  Python's \<open>s.replace(old, new)\<close>: the text is scanned from the left, each occurrence
  of \<open>old\<close> found is replaced and the scan goes on behind it. With an empty \<open>old\<close>,
  \<open>new\<close> is put before every character and at the end.
\<close>

function replace_scan :: "string \<Rightarrow> string \<Rightarrow> string \<Rightarrow> string" where
  "replace_scan old new [] = []"
| "replace_scan old new (c # cs) =
     (if old \<noteq> [] \<and> prefix old (c # cs)
      then new @ replace_scan old new (drop (length old) (c # cs))
      else c # replace_scan old new cs)"
  by pat_completeness auto
termination
  by (relation "measure (\<lambda>(old, new, s). length s)") (auto simp: neq_Nil_conv)

definition py_replace :: "string \<Rightarrow> string \<Rightarrow> string \<Rightarrow> string" where
  "py_replace s old new =
     (if old = [] then new @ concat (map (\<lambda>c. c # new) s) else replace_scan old new s)"

definition dispatch :: "env \<Rightarrow> XctestRunFactory \<Rightarrow> XctestRunFactory io" where
  "dispatch env f =
     (if f_test_type f = XCUITEST then GenerateXctestrunFileForXcuitest env f
      else if f_test_type f = XCTEST then GenerateXctestrunFileForXctest env f
      else if f_test_type f = LOGIC_TEST then GenerateXctestrunFileForLogicTest env f
      else returnIO f)"

text \<open>Lines 333 to 338: the file is read as text, the path of the canonical root is
  replaced by the placeholder, and the text is written back.\<close>

definition replace_test_root :: "env \<Rightarrow> XctestRunFactory \<Rightarrow> unit io" where
  "replace_test_root env f =
     bindIO (need (xctestrun_file_path f))
     (\<lambda>file. bindIO (need (test_root_dir f))
     (\<lambda>tr. bindIO (liftR (read_text (plist_codec env) file))
     (\<lambda>xctestrun_file_content.
        liftW (write_file file
          (Text (py_replace xctestrun_file_content tr TESTROOT_RELATIVE_PATH))))))"

definition GenerateXctestrun ::
  "env \<Rightarrow> XctestRunFactory \<Rightarrow> (XctestRun \<times> XctestRunFactory) io" where
  "GenerateXctestrun env f =
     (case xctestrun_obj f of
        Some x \<Rightarrow> returnIO (x, f)
      | None \<Rightarrow>
          (\<lambda>w. bindIO (prepare_test_root env f)
                 (\<lambda>f1. bindIO (dispatch env f1)
                 (\<lambda>f2. bindIO (replace_test_root env f2)
                 (\<lambda>u. bindIO (need (xctestrun_obj f2))
                 (\<lambda>x. returnIO (x, f2)))))
                 (logging_info ''Generating xctestrun file.'' [] w)))"

definition Close :: "env \<Rightarrow> XctestRunFactory \<Rightarrow> unit io" where
  "Close env f =
     (case work_dir f of
        None \<Rightarrow> returnIO ()
      | Some wd \<Rightarrow> (\<lambda>w. if delete_work_dir f \<and> os_path_exists env wd w
                          then shutil_rmtree env wd w else (Inr (), w)))"

section \<open>Predicates of the statements\<close>

text \<open>Two states of the factory with the same working directory and canonical root.\<close>

definition same_roots :: "XctestRunFactory \<Rightarrow> XctestRunFactory \<Rightarrow> bool" where
  "same_roots f f' = (test_root_dir f' = test_root_dir f \<and> work_dir f' = work_dir f)"

text \<open>A value that is a mapping with the key \<open>k\<close>.\<close>

definition has_field :: "plist \<Rightarrow> string \<Rightarrow> bool" where
  "has_field v k = (case v of PDict d \<Rightarrow> k \<in> set (map fst d) | _ \<Rightarrow> False)"


text \<open>The endings of the placeholder that are not empty.\<close>

definition placeholder_endings :: "string list" where
  "placeholder_endings = filter (\<lambda>s. s \<noteq> []) (suffixes TESTROOT_RELATIVE_PATH)"

text \<open>
  A path of the canonical root that the placeholder cannot complete: it does not
  contain the placeholder and does not begin with an ending of it. A path that begins
  with a slash begins with no ending of the placeholder.
\<close>

definition placeholder_free :: "path \<Rightarrow> bool" where
  "placeholder_free tr =
     (\<not> sublist TESTROOT_RELATIVE_PATH tr
      \<and> list_all (\<lambda>s. \<not> prefix s tr) placeholder_endings)"

section \<open>Example data\<close>

text \<open>The string values of an environment mapping, as document values.\<close>

definition strs :: "(string \<times> string) list \<Rightarrow> (string \<times> plist) list" where
  "strs kvs = map (\<lambda>(k, v). (k, PStr v)) kvs"

text \<open>
  An example codec: it writes a document in the layout of an XML property list (without
  the header, integers without their digits) and parses nothing.
\<close>

fun plist_text :: "plist \<Rightarrow> string" where
  "plist_text (PStr s) = ''<string>'' @ s @ ''</string>''"
| "plist_text (PInt i) = ''<integer/>''"
| "plist_text (PBool b) = (if b then ''<true/>'' else ''<false/>'')"
| "plist_text (PList xs) = ''<array>'' @ concat (map plist_text xs) @ ''</array>''"
| "plist_text (PDict d) =
     ''<dict>'' @ concat (map (\<lambda>(k, v). ''<key>'' @ k @ ''</key>'' @ plist_text v) d) @ ''</dict>''"

definition example_codec :: codec where
  "example_codec = \<lparr>parse = (\<lambda>s. None), serialise = plist_text\<rparr>"

text \<open>A document of one root key, stored in a file, and the object opened on it.\<close>

definition example_doc :: plist where
  "example_doc =
     PDict [(''MyTests'',
       PDict [(''TestBundlePath'', PStr ''__TESTROOT__/MyTests.xctest''), (''IsEmpty'', PStr [])])]"

definition example_world :: world where
  "example_world =
     \<lparr>files = [(''/w'', Dir), (''/w/xctestrun.plist'', File (Doc example_doc))], log = []\<rparr>"

definition example_run :: XctestRun where
  "example_run =
     \<lparr>xr_file_path = ''/w/xctestrun.plist'', xr_root_key = ''MyTests'', xr_test_type = None\<rparr>"

text \<open>The same file holding a document of a UI test: its root mapping has the field
  \<open>UITargetAppPath\<close>.\<close>

definition ui_doc :: plist where
  "ui_doc =
     PDict [(''MyTests'',
       PDict [(''TestBundlePath'', PStr ''__TESTROOT__/MyTests.xctest''),
              (''UITargetAppPath'', PStr ''__TESTROOT__/App.app'')])]"

definition ui_world :: world where
  "ui_world =
     \<lparr>files = [(''/w'', Dir), (''/w/xctestrun.plist'', File (Doc ui_doc))], log = []\<rparr>"

subsection \<open>An example machine\<close>

text \<open>
  An instance of the library calls on directories, over the table of files, for the
  example runs below. It compares paths as written, and it is meant for the paths of
  those runs only: absolute paths written without a trailing slash, without \<open>.\<close> and
  \<open>..\<close>, whose parent directories are in the table, and whose names hold no pattern
  character. No theorem about all machines depends on it. \<open>under d k\<close>: \<open>k\<close> is
  \<open>d\<close> or lies below it.
\<close>

definition under :: "path \<Rightarrow> path \<Rightarrow> bool" where
  "under d k = (k = d \<or> prefix (d @ ''/'') k)"

definition table_mkdir :: "path \<Rightarrow> unit io" where
  "table_mkdir p = (\<lambda>w.
     if map_of (files w) p = None \<and> parent_ok w p
     then (Inr (), w\<lparr>files := files w @ [(p, Dir)]\<rparr>)
     else (Inl OSError, w))"

definition table_rmtree :: "path \<Rightarrow> unit io" where
  "table_rmtree p = (\<lambda>w.
     if islink w p then (Inl OSError, w)
     else if map_of (files w) p = Some Dir
     then (Inr (), w\<lparr>files := filter (\<lambda>(k, n). \<not> under p k) (files w)\<rparr>)
     else (Inl OSError, w))"

text \<open>
  A rename as \<open>shutil.move\<close> makes it: a missing source is an IOError, a destination
  inside the source a shutil.Error. A renamed directory takes everything below it
  along.
\<close>

definition moved :: "path \<Rightarrow> path \<Rightarrow> (path \<times> node) list \<Rightarrow> (path \<times> node) list" where
  "moved src dst fs =
     map (\<lambda>(k, n). (if under src k then dst @ drop (length src) k else k, n))
       (filter (\<lambda>(k, n). k \<noteq> dst) fs)"

definition table_rename :: "path \<Rightarrow> path \<Rightarrow> unit io" where
  "table_rename src dst = (\<lambda>w.
     case map_of (files w) src of
       None \<Rightarrow> (Inl IOError, w)
     | Some nd \<Rightarrow>
         if src = dst then (Inr (), w)
         else if prefix (src @ ''/'') dst then (Inl ShutilError, w)
         else if parent_ok w dst then
           (case map_of (files w) dst of
              None \<Rightarrow> (Inr (), w\<lparr>files := moved src dst (files w)\<rparr>)
            | Some Dir \<Rightarrow> (Inl OSError, w)
            | Some other \<Rightarrow>
                if nd = Dir then (Inl OSError, w)
                else (Inr (), w\<lparr>files := moved src dst (files w)\<rparr>))
         else (Inl IOError, w))"

definition rstrip_sep :: "path \<Rightarrow> path" where
  "rstrip_sep p = rev (dropWhile (\<lambda>c. c = CHR ''/'') (rev p))"

definition table_move :: "path \<Rightarrow> path \<Rightarrow> unit io" where
  "table_move src dst = (\<lambda>w.
     if isdir w dst \<and> src \<noteq> dst then
       (let real_dst = join dst (basename (rstrip_sep src))
        in if path_exists w real_dst then (Inl ShutilError, w)
           else table_rename src real_dst w)
     else table_rename src dst w)"

text \<open>A copy of a directory: the source is followed when it is a link, the destination
  must not exist. Entries below the source are copied as they are.\<close>

definition table_copytree :: "path \<Rightarrow> path \<Rightarrow> unit io" where
  "table_copytree src dst = (\<lambda>w.
     case stat w src of
       Some (r, Dir) \<Rightarrow>
         if map_of (files w) dst = None
         then (Inr (), w\<lparr>files := files w @ (dst, Dir) #
                 map (\<lambda>(k, n). (dst @ drop (length r) k, n))
                   (filter (\<lambda>(k, n). prefix (r @ ''/'') k) (files w))\<rparr>)
         else (Inl OSError, w)
     | _ \<Rightarrow> (Inl OSError, w))"

text \<open>
  Patterns, for the two the source uses: the pattern is split at its slashes, and after
  the first component each component is matched in the directories found so far. A
  component with a star \<open>pre*suf\<close> matches the names that start with \<open>pre\<close> and end
  with \<open>suf\<close> and do not start with a dot; any other component is a name, taken as
  written (the example machine is meant for directories whose names hold no \<open>*\<close>,
  \<open>?\<close> or \<open>[\<close>). The names of a directory come in the order of the table.
\<close>

definition child_name :: "path \<Rightarrow> path \<Rightarrow> string option" where
  "child_name d k =
     (let name = drop (length d + 1) k
      in if prefix (d @ ''/'') k \<and> name \<noteq> [] \<and> CHR ''/'' \<notin> set name then Some name else None)"

definition listdir :: "world \<Rightarrow> path \<Rightarrow> string list" where
  "listdir w d =
     (case stat w d of
        Some (r, Dir) \<Rightarrow> List.map_filter (child_name r) (map fst (files w))
      | _ \<Rightarrow> [])"

definition name_matches :: "string \<Rightarrow> string \<Rightarrow> bool" where
  "name_matches pat n =
     (let pre = takeWhile (\<lambda>c. c \<noteq> CHR ''*'') pat;
          suf = drop 1 (dropWhile (\<lambda>c. c \<noteq> CHR ''*'') pat)
      in hd n \<noteq> CHR ''.'' \<and> prefix pre n \<and> suffix suf n \<and> length pre + length suf \<le> length n)"

definition glob_component :: "world \<Rightarrow> path list \<Rightarrow> string \<Rightarrow> path list" where
  "glob_component w dirs pat =
     (if CHR ''*'' \<in> set pat
      then concat (map (\<lambda>d. map (\<lambda>n. d @ ''/'' @ n) (filter (name_matches pat) (listdir w d))) dirs)
      else filter (\<lambda>p. map_of (files w) p \<noteq> None) (map (\<lambda>d. d @ ''/'' @ pat) dirs))"

definition table_glob :: "string \<Rightarrow> world \<Rightarrow> path list" where
  "table_glob pattern w =
     (case split_on CHR ''/'' pattern of
        [] \<Rightarrow> []
      | c # cs \<Rightarrow> foldl (glob_component w) [c] cs)"

text \<open>The example machine: the calls above, a temporary directory of a fixed name, a
  toolchain under \<open>/Xcode\<close>, and a build that writes nothing.\<close>

definition example_env :: env where
  "example_env =
     \<lparr>plist_codec = example_codec,
      os_path_exists = (\<lambda>p w. path_exists w p),
      os_path_islink = (\<lambda>p w. islink w p),
      os_mkdir = table_mkdir,
      shutil_rmtree = table_rmtree,
      shutil_move = table_move,
      shutil_copytree = table_copytree,
      glob_glob = table_glob,
      mkdtemp = bindIO (table_mkdir ''/tmp/tmpk3v9xq'') (\<lambda>u. returnIO ''/tmp/tmpk3v9xq''),
      GetXctestToolPath = (\<lambda>sdk. ''/Xcode/usr/bin/xctest''),
      GetSdkPlatformPath = (\<lambda>sdk. ''/Xcode/Platforms/iPhoneSimulator.platform''),
      DummyProject_BuildForTesting = (\<lambda>db. returnIO ()),
      EnableUIFileSharing = (\<lambda>p. returnIO ())\<rparr>"

subsection \<open>Example runs\<close>

text \<open>The world after a build that left two generated documents and two runner
  applications in the products tree, and the factory at that point of the pipelines
  that build.\<close>

definition two_documents_world :: world where
  "two_documents_world =
     \<lparr>files =
        [(''/w'', Dir),
         (''/w/TEST_ROOT'', Dir),
         (''/w/TEST_ROOT/App.app'', Dir),
         (''/w/TEST_ROOT/App.app/PlugIns'', Dir),
         (''/w/TEST_ROOT/App.app/PlugIns/MyTests.xctest'', Dir),
         (''/w/dummyproject_derived_data'', Dir),
         (''/w/dummyproject_derived_data/Build'', Dir),
         (''/w/dummyproject_derived_data/Build/Products'', Dir),
         (''/w/dummyproject_derived_data/Build/Products/Debug-iphonesimulator'', Dir),
         (''/w/dummyproject_derived_data/Build/Products/Debug-iphonesimulator/First-Runner.app'', Dir),
         (''/w/dummyproject_derived_data/Build/Products/Debug-iphonesimulator/Second-Runner.app'', Dir),
         (''/w/dummyproject_derived_data/Build/Products/First.xctestrun'',
            File (Doc (PDict [(''MyTests'', PDict [(''TestingEnvironmentVariables'',
                PDict [(''IDEiPhoneInternalTestBundleName'', PStr ''MyTests'')])])]))),
         (''/w/dummyproject_derived_data/Build/Products/Second.xctestrun'',
            File (Doc (PDict [(''Other'', PDict [])])))],
      log = []\<rparr>"

definition harvest_factory :: XctestRunFactory where
  "harvest_factory =
     \<lparr>app_under_test_dir = Some ''/w/TEST_ROOT/App.app'',
      test_bundle_dir = ''/w/TEST_ROOT/App.app/PlugIns/MyTests.xctest'',
      test_name = ''MyTests'',
      f_sdk = IPHONESIMULATOR,
      f_test_type = XCTEST,
      signing_options = Some [],
      work_dir = Some ''/w'',
      test_root_dir = Some ''/w/TEST_ROOT'',
      xctestrun_file_path = None,
      xctestrun_obj = None,
      delete_work_dir = False\<rparr>"

text \<open>The same factory in the UI-driven mode.\<close>

definition ui_harvest_factory :: XctestRunFactory where
  "ui_harvest_factory = harvest_factory\<lparr>f_test_type := XCUITEST\<rparr>"

text \<open>A world with a test bundle \<open>/b/MyTests.xctest\<close> and no working directory yet, and
  the factory the constructor makes for a logic test of it on the simulator with the
  working directory \<open>/w\<close>.\<close>

definition start_world :: world where
  "start_world =
     \<lparr>files = [(''/b'', Dir), (''/b/MyTests.xctest'', Dir),
               (''/b/MyTests.xctest/Info.plist'', File (Text ''info''))],
      log = []\<rparr>"

definition logic_factory :: XctestRunFactory where
  "logic_factory =
     \<lparr>app_under_test_dir = None,
      test_bundle_dir = ''/b/MyTests.xctest'',
      test_name = ''MyTests'',
      f_sdk = IPHONESIMULATOR,
      f_test_type = LOGIC_TEST,
      signing_options = Some [],
      work_dir = Some ''/w'',
      test_root_dir = None,
      xctestrun_file_path = None,
      xctestrun_obj = None,
      delete_work_dir = False\<rparr>"

text \<open>The same world with the directory \<open>/tmp\<close>, for a factory that is given no
  working directory.\<close>

definition temp_world :: world where
  "temp_world = start_world\<lparr>files := (''/tmp'', Dir) # files start_world\<rparr>"


text \<open>The same with a working directory \<open>/a__TESTROOT__\<close>, on a machine whose SDK
  platform lies in a directory \<open>TEST_ROOT\<close> of the canonical root.\<close>

definition nested_env :: env where
  "nested_env = example_env\<lparr>GetSdkPlatformPath :=
      (\<lambda>sdk. ''/a/a__TESTROOT__/TEST_ROOT/TEST_ROOT/iPhoneSimulator.platform'')\<rparr>"

definition nested_factory :: XctestRunFactory where
  "nested_factory = logic_factory\<lparr>work_dir := Some ''/a__TESTROOT__''\<rparr>"

text \<open>A machine whose SDK platform lies in the working directory \<open>/w\<close>, beside the
  canonical root.\<close>

definition beside_env :: env where
  "beside_env = example_env\<lparr>GetSdkPlatformPath :=
      (\<lambda>sdk. ''/w/Platforms/iPhoneSimulator.platform'')\<rparr>"

text \<open>The same with a working directory \<open>/t__k4\<close>.\<close>

definition underscore_factory :: XctestRunFactory where
  "underscore_factory = logic_factory\<lparr>work_dir := Some ''/t__k4''\<rparr>"

section \<open>Basic facts\<close>

lemma bindE_Inl: "bindE (Inl e) f = Inl e"
  by (simp add: bindE_def)

lemma bindE_Inr: "bindE (Inr v) f = f v"
  by (simp add: bindE_def)

lemma split_on_nonempty: "split_on c xs \<noteq> []"
  by (induction xs) (auto split: list.splits)

lemma split_on_no_sep: "c \<notin> set a \<Longrightarrow> split_on c a = [a]"
  by (induction a) (auto split: list.splits)

lemma split_on_prefix: "c \<notin> set a \<Longrightarrow> split_on c (a @ c # b) = a # split_on c b"
  by (induction a) (auto split: list.splits)

lemma walk_error: "walk v ks = Inl e \<Longrightarrow> e = PlistError"
  by (induction v ks rule: walk.induct) (auto split: option.splits)

lemma follow_update_file:
  "follow n fs p = Some (q, File old) \<Longrightarrow> follow n (AList.update q (File c) fs) p = Some (q, File c)"
proof (induction n arbitrary: p)
  case 0
  then show ?case by simp
next
  case (Suc n)
  show ?case
  proof (cases "p = q")
    case True
    then show ?thesis by (simp add: update_conv')
  next
    case False
    with Suc show ?thesis
      by (auto simp: update_conv' split: option.splits node.splits)
  qed
qed

lemma write_then_load:
  assumes "load_plist cd p w = Inr doc"
  shows "\<exists>w'. write_file p (Doc doc') w = Inr w' \<and> load_plist cd p w' = Inr doc' \<and> log w' = log w"
proof -
  from assms obtain q old where st: "stat w p = Some (q, File old)"
    by (auto simp: load_plist_def read_file_def bindE_def split: option.splits node.splits sum.splits)
  then have "follow 32 (AList.update q (File (Doc doc')) (files w)) p = Some (q, File (Doc doc'))"
    unfolding stat_def by (rule follow_update_file)
  with st show ?thesis
    by (simp add: write_file_def load_plist_def read_file_def stat_def bindE_def)
qed

lemma load_exists: "load_plist cd p w = Inr doc \<Longrightarrow> path_exists w p"
  by (auto simp: load_plist_def read_file_def path_exists_def bindE_def split: option.splits)

text \<open>The shape of a well-formed document: the root key first, its value a mapping.\<close>

lemma init_shape:
  assumes "XctestRun_init cd p tt w = Inr x"
    and "GetPlistField cd p (Some (xr_root_key x)) w = Inr (PDict d)"
    and "CHR '':'' \<notin> set (xr_root_key x)"
  shows "xr_file_path x = p \<and> xr_test_type x = tt \<and>
         (\<exists>rest. load_plist cd p w = Inr (PDict ((xr_root_key x, PDict d) # rest)))"
  using assms
  by (auto simp: XctestRun_init_def GetPlistField_def bindE_def field_keys_def split_on_no_sep
      split: sum.splits plist.splits list.splits)

lemma Get_root_field:
  assumes "load_plist cd (xr_file_path x) w = Inr (PDict ((xr_root_key x, PDict d) # rest))"
    and "CHR '':'' \<notin> set (xr_root_key x)" and "CHR '':'' \<notin> set field"
  shows "GetXctestrunField cd x field w = Inr (map_of d field)"
  using assms
  by (auto simp: GetXctestrunField_def GetPlistField_def rooted_def bindE_def field_keys_def
      split_on_prefix split_on_no_sep split: option.splits)

lemma Set_root_field:
  assumes "load_plist cd (xr_file_path x) w = Inr (PDict ((xr_root_key x, PDict d) # rest))"
    and "CHR '':'' \<notin> set (xr_root_key x)" and "CHR '':'' \<notin> set field"
  shows "\<exists>w'. SetXctestrunField cd x field v w = Inr w' \<and> log w' = log w \<and>
           load_plist cd (xr_file_path x) w' =
             Inr (PDict ((xr_root_key x, PDict (AList.update field v d)) # rest))"
proof -
  have keys: "field_keys (rooted x field) = [xr_root_key x, field]"
    using assms(2,3) by (simp add: field_keys_def rooted_def split_on_prefix split_on_no_sep)
  have "set_at (PDict ((xr_root_key x, PDict d) # rest)) [xr_root_key x, field] v
        = Inr (PDict ((xr_root_key x, PDict (AList.update field v d)) # rest))"
    by (simp add: bindE_def)
  moreover obtain w' where "write_file (xr_file_path x)
        (Doc (PDict ((xr_root_key x, PDict (AList.update field v d)) # rest))) w = Inr w'"
      "load_plist cd (xr_file_path x) w' =
         Inr (PDict ((xr_root_key x, PDict (AList.update field v d)) # rest))"
      "log w' = log w"
    using write_then_load[OF assms(1)] by blast
  ultimately show ?thesis
    using load_exists[OF assms(1)] assms(1) keys
    by (simp add: SetXctestrunField_def SetPlistField_def bindE_def)
qed

lemma assign_items_dict:
  "\<exists>m. assign_items (PDict d) kvs = Inr (PDict m) \<and> map_of m = map_of d ++ map_of (rev (strs kvs))"
proof (induction kvs arbitrary: d)
  case Nil
  then show ?case by (simp add: strs_def)
next
  case (Cons kv kvs)
  obtain k x where kv: "kv = (k, x)" by (cases kv)
  from Cons[of "AList.update k (PStr x) d"] obtain m where
    m: "assign_items (PDict (AList.update k (PStr x) d)) kvs = Inr (PDict m)"
       "map_of m = map_of (AList.update k (PStr x) d) ++ map_of (rev (strs kvs))" by blast
  have "map_of (AList.update k (PStr x) d) ++ map_of (rev (strs kvs))
        = map_of d ++ map_of (rev (strs (kv # kvs)))"
    by (simp add: kv strs_def update_conv' map_add_upd_left fun_eq_iff map_add_def split: option.splits)
  with m show ?case by (simp add: kv)
qed

text \<open>Setting one field of the root mapping twice: each value can be read back, and
  the second stands in the end.\<close>

lemma Set_field_twice:
  assumes init: "XctestRun_init cd p tt w = Inr x"
    and root: "GetPlistField cd p (Some (xr_root_key x)) w = Inr (PDict d)"
    and colon: "CHR '':'' \<notin> set (xr_root_key x)"
    and nc: "CHR '':'' \<notin> set field"
  shows "\<exists>w1 w2. SetXctestrunField cd x field v1 w = Inr w1 \<and>
           SetXctestrunField cd x field v2 w1 = Inr w2 \<and>
           GetXctestrunField cd x field w1 = Inr (Some v1) \<and>
           GetXctestrunField cd x field w2 = Inr (Some v2)"
proof -
  from init_shape[OF init root colon] obtain rest where
    l0: "load_plist cd (xr_file_path x) w = Inr (PDict ((xr_root_key x, PDict d) # rest))" by auto
  from Set_root_field[OF l0 colon nc] obtain w1 where
    s1: "SetXctestrunField cd x field v1 w = Inr w1"
    and l1: "load_plist cd (xr_file_path x) w1 =
         Inr (PDict ((xr_root_key x, PDict (AList.update field v1 d)) # rest))"
    by blast
  from Set_root_field[OF l1 colon nc] obtain w2 where
    s2: "SetXctestrunField cd x field v2 w1 = Inr w2"
    and l2: "load_plist cd (xr_file_path x) w2 =
         Inr (PDict ((xr_root_key x, PDict (AList.update field v2 (AList.update field v1 d))) # rest))"
    by blast
  have g1: "GetXctestrunField cd x field w1 = Inr (Some v1)"
    using Get_root_field[OF l1 colon nc] by (simp add: update_conv')
  have g2: "GetXctestrunField cd x field w2 = Inr (Some v2)"
    using Get_root_field[OF l2 colon nc] by (simp add: update_conv')
  from s1 s2 g1 g2 show ?thesis by blast
qed

lemma ex_load: "load_plist example_codec ''/w/xctestrun.plist'' example_world = Inr example_doc"
  by (simp add: load_plist_def read_file_def stat_def example_world_def bindE_def eval_nat_numeral)

lemma ex_init:
  "XctestRun_init example_codec ''/w/xctestrun.plist'' None example_world = Inr example_run"
  by (simp add: XctestRun_init_def GetPlistField_def field_keys_def bindE_def ex_load
      example_doc_def example_run_def)

lemma ex_root:
  "GetPlistField example_codec ''/w/xctestrun.plist'' (Some (xr_root_key example_run)) example_world
   = Inr (PDict [(''TestBundlePath'', PStr ''__TESTROOT__/MyTests.xctest''), (''IsEmpty'', PStr [])])"
  by (simp add: GetPlistField_def field_keys_def bindE_def ex_load example_doc_def example_run_def)

lemma ex_colon: "CHR '':'' \<notin> set (xr_root_key example_run)"
  by (simp add: example_run_def)

section \<open>Reading a field that was never set (C3)\<close>

text \<open>
  C3, as the code has it. A field path that does not resolve in the document is not an
  error of \<open>GetXctestrunField\<close>: the lookup error of the store is caught and the method
  returns \<open>None\<close>; \<open>HasXctestrunField\<close> returns \<open>False\<close>; neither raises. A path that
  resolves, also to an empty or false value \<open>v\<close>, gives \<open>Some v\<close> and \<open>True\<close>, so the
  two cases are told apart.
\<close>

theorem GetXctestrunField_unset_returns_None:
  assumes "load_plist cd (xr_file_path x) w = Inr doc"
  shows "(\<forall>e. walk doc (split_on CHR '':'' (xr_root_key x @ '':'' @ field)) = Inl e \<longrightarrow>
            GetXctestrunField cd x field w = Inr None \<and> HasXctestrunField cd x field w = Inr False)
       \<and> (\<forall>v. walk doc (split_on CHR '':'' (xr_root_key x @ '':'' @ field)) = Inr v \<longrightarrow>
            GetXctestrunField cd x field w = Inr (Some v) \<and> HasXctestrunField cd x field w = Inr True)"
  using assms
  by (auto simp: GetXctestrunField_def HasXctestrunField_def GetPlistField_def rooted_def
      field_keys_def bindE_def dest: walk_error)

text \<open>In the example document \<open>EnvironmentVariables\<close> was never set and \<open>IsEmpty\<close> is
  set to the empty string.\<close>

theorem GetXctestrunField_unset_returns_None_witness:
  "GetXctestrunField example_codec example_run ''EnvironmentVariables'' example_world = Inr None
   \<and> HasXctestrunField example_codec example_run ''EnvironmentVariables'' example_world = Inr False
   \<and> GetXctestrunField example_codec example_run ''IsEmpty'' example_world = Inr (Some (PStr []))
   \<and> HasXctestrunField example_codec example_run ''IsEmpty'' example_world = Inr True"
proof -
  have l: "load_plist example_codec (xr_file_path example_run) example_world = Inr example_doc"
    using ex_load by (simp add: example_run_def)
  have a: "walk example_doc (split_on CHR '':'' (xr_root_key example_run @ '':'' @ ''EnvironmentVariables''))
           = Inl PlistError"
    by (simp add: example_doc_def example_run_def)
  have b: "walk example_doc (split_on CHR '':'' (xr_root_key example_run @ '':'' @ ''IsEmpty''))
           = Inr (PStr [])"
    by (simp add: example_doc_def example_run_def)
  from GetXctestrunField_unset_returns_None[OF l, of "''EnvironmentVariables''"] a
    GetXctestrunField_unset_returns_None[OF l, of "''IsEmpty''"] b
  show ?thesis by blast
qed

text \<open>C3 as stated fails: the store's lookup of the unset path raises the lookup
  error, and \<open>GetXctestrunField\<close> on the same path returns \<open>None\<close> instead of raising.\<close>

theorem GetXctestrunField_unset_does_not_raise:
  "GetPlistField example_codec (xr_file_path example_run)
      (rooted example_run ''EnvironmentVariables'') example_world = Inl PlistError
   \<and> GetXctestrunField example_codec example_run ''EnvironmentVariables'' example_world = Inr None
   \<and> GetXctestrunField example_codec example_run ''EnvironmentVariables'' example_world
       \<noteq> Inl PlistError"
  by (simp add: GetXctestrunField_def GetPlistField_def rooted_def field_keys_def bindE_def ex_load
      example_run_def example_doc_def)

section \<open>Environment variables merge (C6)\<close>

text \<open>
  C6. On an object made from a document whose root value is a mapping (and whose root
  key holds no colon), with the \<open>EnvironmentVariables\<close> field absent, empty or a mapping
  \<open>old\<close>: two calls of \<open>SetTestEnvVars\<close> with non-empty mappings both succeed, and the
  field then holds the old entries overridden by the first mapping, overridden by the
  second. Setting \<open>{A:1}\<close> then \<open>{B:2}\<close> leaves both.
\<close>

theorem SetTestEnvVars_merges:
  assumes init: "XctestRun_init cd p tt w = Inr x"
    and root: "GetPlistField cd p (Some (xr_root_key x)) w = Inr (PDict d)"
    and colon: "CHR '':'' \<notin> set (xr_root_key x)"
    and old: "or_empty_dict (map_of d ''EnvironmentVariables'') = PDict old"
    and ne: "env1 \<noteq> []" "env2 \<noteq> []"
  shows "\<exists>w1 w2 m. SetTestEnvVars cd x env1 w = Inr w1 \<and> SetTestEnvVars cd x env2 w1 = Inr w2 \<and>
           GetXctestrunField cd x ''EnvironmentVariables'' w2 = Inr (Some (PDict m)) \<and>
           map_of m = map_of old ++ map_of (rev (strs env1)) ++ map_of (rev (strs env2))"
proof -
  from init_shape[OF init root colon] obtain rest where
    l0: "load_plist cd (xr_file_path x) w = Inr (PDict ((xr_root_key x, PDict d) # rest))" by auto
  have nc: "CHR '':'' \<notin> set ''EnvironmentVariables''" by simp
  have g0: "GetXctestrunField cd x ''EnvironmentVariables'' w = Inr (map_of d ''EnvironmentVariables'')"
    by (rule Get_root_field[OF l0 colon nc])
  from assign_items_dict[of old env1] obtain m1 where
    m1: "assign_items (PDict old) env1 = Inr (PDict m1)"
        "map_of m1 = map_of old ++ map_of (rev (strs env1))" by blast
  from Set_root_field[OF l0 colon nc] obtain w1 where
    s1: "SetXctestrunField cd x ''EnvironmentVariables'' (PDict m1) w = Inr w1"
    and l1: "load_plist cd (xr_file_path x) w1 = Inr (PDict ((xr_root_key x,
         PDict (AList.update ''EnvironmentVariables'' (PDict m1) d)) # rest))"
    by blast
  have c1: "SetTestEnvVars cd x env1 w = Inr w1"
    using ne g0 old m1 s1 by (simp add: SetTestEnvVars_def bindE_def)
  have g1: "GetXctestrunField cd x ''EnvironmentVariables'' w1 = Inr (Some (PDict m1))"
    using Get_root_field[OF l1 colon nc] by (simp add: update_conv')
  have ne1: "m1 \<noteq> []"
  proof
    assume "m1 = []"
    with m1(2) have "map_of old ++ map_of (rev (strs env1)) = Map.empty" by simp
    then have "map_of (rev (strs env1)) = Map.empty" by simp
    then have "strs env1 = []" by (simp add: map_of_eq_empty_iff)
    with ne show False by (simp add: strs_def)
  qed
  from assign_items_dict[of m1 env2] obtain m2 where
    m2: "assign_items (PDict m1) env2 = Inr (PDict m2)"
        "map_of m2 = map_of m1 ++ map_of (rev (strs env2))" by blast
  from Set_root_field[OF l1 colon nc] obtain w2 where
    s2: "SetXctestrunField cd x ''EnvironmentVariables'' (PDict m2) w1 = Inr w2"
    and l2: "load_plist cd (xr_file_path x) w2 = Inr (PDict ((xr_root_key x,
         PDict (AList.update ''EnvironmentVariables'' (PDict m2)
           (AList.update ''EnvironmentVariables'' (PDict m1) d))) # rest))"
    by blast
  have c2: "SetTestEnvVars cd x env2 w1 = Inr w2"
    using ne g1 ne1 m2 s2 by (simp add: SetTestEnvVars_def bindE_def or_empty_dict_def)
  have g2: "GetXctestrunField cd x ''EnvironmentVariables'' w2 = Inr (Some (PDict m2))"
    using Get_root_field[OF l2 colon nc] by (simp add: update_conv')
  from c1 c2 g2 m1(2) m2(2) show ?thesis by auto
qed

theorem SetTestEnvVars_merges_witness:
  "\<exists>w1 w2 m. SetTestEnvVars example_codec example_run [(''A'', ''1'')] example_world = Inr w1 \<and>
     SetTestEnvVars example_codec example_run [(''B'', ''2'')] w1 = Inr w2 \<and>
     GetXctestrunField example_codec example_run ''EnvironmentVariables'' w2 = Inr (Some (PDict m)) \<and>
     map_of m ''A'' = Some (PStr ''1'') \<and> map_of m ''B'' = Some (PStr ''2'')"
proof -
  have old: "or_empty_dict (map_of [(''TestBundlePath'', PStr ''__TESTROOT__/MyTests.xctest''),
      (''IsEmpty'', PStr [])] ''EnvironmentVariables'') = PDict []"
    by (simp add: or_empty_dict_def)
  from SetTestEnvVars_merges[OF ex_init ex_root ex_colon old, of "[(''A'', ''1'')]" "[(''B'', ''2'')]"]
  obtain w1 w2 m where
    "SetTestEnvVars example_codec example_run [(''A'', ''1'')] example_world = Inr w1"
    "SetTestEnvVars example_codec example_run [(''B'', ''2'')] w1 = Inr w2"
    "GetXctestrunField example_codec example_run ''EnvironmentVariables'' w2 = Inr (Some (PDict m))"
    "map_of m = map_of [] ++ map_of (rev (strs [(''A'', ''1'')])) ++ map_of (rev (strs [(''B'', ''2'')]))"
    by auto
  then show ?thesis by (auto simp: strs_def)
qed

section \<open>Test arguments replace (C7)\<close>

text \<open>
  C7. On an object made from a document whose root value is a mapping (and whose root
  key holds no colon), two calls of \<open>SetTestArgs\<close> with non-empty lists both succeed;
  after the first the \<open>CommandLineArguments\<close> field is the first list, after the second
  it is the second list and nothing else.
\<close>

theorem SetTestArgs_replaces:
  assumes init: "XctestRun_init cd p tt w = Inr x"
    and root: "GetPlistField cd p (Some (xr_root_key x)) w = Inr (PDict d)"
    and colon: "CHR '':'' \<notin> set (xr_root_key x)"
    and ne: "args1 \<noteq> []" "args2 \<noteq> []"
  shows "\<exists>w1 w2. SetTestArgs cd x args1 w = Inr w1 \<and> SetTestArgs cd x args2 w1 = Inr w2 \<and>
           GetXctestrunField cd x ''CommandLineArguments'' w1 = Inr (Some (PList (map PStr args1))) \<and>
           GetXctestrunField cd x ''CommandLineArguments'' w2 = Inr (Some (PList (map PStr args2)))"
proof -
  have nc: "CHR '':'' \<notin> set ''CommandLineArguments''" by simp
  from Set_field_twice[OF init root colon nc] ne show ?thesis
    by (simp add: SetTestArgs_def)
qed

theorem SetTestArgs_replaces_witness:
  "\<exists>w1 w2. SetTestArgs example_codec example_run [''x''] example_world = Inr w1 \<and>
     SetTestArgs example_codec example_run [''y''] w1 = Inr w2 \<and>
     GetXctestrunField example_codec example_run ''CommandLineArguments'' w1 = Inr (Some (PList [PStr ''x''])) \<and>
     GetXctestrunField example_codec example_run ''CommandLineArguments'' w2 = Inr (Some (PList [PStr ''y'']))"
  using SetTestArgs_replaces[OF ex_init ex_root ex_colon, of "[''x'']" "[''y'']"] by simp

section \<open>The inferred test type (C8)\<close>

lemma has_field_dict: "has_field (PDict d) k = (map_of d k \<noteq> None)"
  by (simp add: has_field_def map_of_eq_None_iff)

lemma has_field_other:
  "\<not> has_field (PStr s) k" "\<not> has_field (PInt i) k" "\<not> has_field (PBool b) k"
  "\<not> has_field (PList xs) k"
  by (simp_all add: has_field_def)

lemma Has_root_field:
  assumes "GetPlistField cd (xr_file_path x) (Some (xr_root_key x)) w = Inr v"
    and "CHR '':'' \<notin> set (xr_root_key x)" and "CHR '':'' \<notin> set field"
  shows "HasXctestrunField cd x field w = Inr (has_field v field)"
proof -
  from assms(1,2) obtain doc where
    l: "load_plist cd (xr_file_path x) w = Inr doc" and r: "walk doc [xr_root_key x] = Inr v"
    by (auto simp: GetPlistField_def bindE_def field_keys_def split_on_no_sep split: sum.splits)
  have keys: "field_keys (rooted x field) = [xr_root_key x, field]"
    using assms(2,3) by (simp add: field_keys_def rooted_def split_on_prefix split_on_no_sep)
  from r obtain dd where doc: "doc = PDict dd" and m: "map_of dd (xr_root_key x) = Some v"
    by (cases doc) (auto split: option.splits)
  have "walk doc [xr_root_key x, field] = walk v [field]"
    by (simp add: doc m)
  moreover have "\<not> has_field v field \<Longrightarrow> walk v [field] = Inl PlistError"
    by (cases v) (auto simp: has_field_dict split: option.splits)
  moreover have "has_field v field \<Longrightarrow> \<exists>y. walk v [field] = Inr y"
    by (cases v) (auto simp: has_field_dict has_field_other split: option.splits)
  ultimately show ?thesis
    using l keys by (cases "has_field v field") (auto simp: HasXctestrunField_def GetPlistField_def bindE_def)
qed

text \<open>
  C8. An object is made without a test type (from the document as it stands in any
  world \<open>w0\<close>). When the property \<open>test_type\<close> is first read, in a world \<open>w\<close> where
  the document holds the value \<open>v\<close> under the object's root key (a key without a colon),
  it returns the UI-driven type if \<open>v\<close> is a mapping with the key \<open>UITargetAppPath\<close>,
  and the non-UI type otherwise; and it stores it: read again from the returned object
  in any world \<open>w'\<close>, whatever the document then holds, it returns the same value.
\<close>

theorem test_type_inferred_and_memoized:
  assumes init: "XctestRun_init cd p None w0 = Inr x"
    and root: "GetPlistField cd p (Some (xr_root_key x)) w = Inr v"
    and colon: "CHR '':'' \<notin> set (xr_root_key x)"
  shows "\<exists>x'. test_type cd x w
             = Inr (Some (if has_field v ''UITargetAppPath'' then XCUITEST else XCTEST), x') \<and>
           (\<forall>w'. test_type cd x' w'
             = Inr (Some (if has_field v ''UITargetAppPath'' then XCUITEST else XCTEST), x'))"
proof -
  from init have x: "xr_test_type x = None" "xr_file_path x = p"
    by (auto simp: XctestRun_init_def bindE_def split: sum.splits plist.splits list.splits)
  have nc: "CHR '':'' \<notin> set ''UITargetAppPath''" by simp
  from root x(2) have "GetPlistField cd (xr_file_path x) (Some (xr_root_key x)) w = Inr v" by simp
  from Has_root_field[OF this colon nc]
  have "HasXctestrunField cd x ''UITargetAppPath'' w = Inr (has_field v ''UITargetAppPath'')" .
  with x(1) show ?thesis
    by (auto simp: test_type_def bindE_def)
qed

lemma ui_root:
  "GetPlistField example_codec ''/w/xctestrun.plist'' (Some (xr_root_key example_run)) ui_world
   = Inr (PDict [(''TestBundlePath'', PStr ''__TESTROOT__/MyTests.xctest''),
                 (''UITargetAppPath'', PStr ''__TESTROOT__/App.app'')])"
  by (simp add: GetPlistField_def field_keys_def bindE_def load_plist_def read_file_def stat_def
      ui_world_def ui_doc_def example_run_def eval_nat_numeral)

text \<open>The object of the example, first read where the document has no
  \<open>UITargetAppPath\<close> and read again where it has one; and first read where the document
  has one and read again where it has none.\<close>

theorem test_type_inferred_and_memoized_witness:
  "(\<exists>x'. test_type example_codec example_run example_world = Inr (Some XCTEST, x') \<and>
       test_type example_codec x' ui_world = Inr (Some XCTEST, x'))
   \<and> (\<exists>x'. test_type example_codec example_run ui_world = Inr (Some XCUITEST, x') \<and>
       test_type example_codec x' example_world = Inr (Some XCUITEST, x'))"
proof -
  have a: "\<not> has_field (PDict [(''TestBundlePath'', PStr ''__TESTROOT__/MyTests.xctest''),
      (''IsEmpty'', PStr [])]) ''UITargetAppPath''"
    by (simp add: has_field_def)
  have b: "has_field (PDict [(''TestBundlePath'', PStr ''__TESTROOT__/MyTests.xctest''),
      (''UITargetAppPath'', PStr ''__TESTROOT__/App.app'')]) ''UITargetAppPath''"
    by (simp add: has_field_def)
  from test_type_inferred_and_memoized[OF ex_init ex_root ex_colon] a
  have 1: "\<exists>x'. test_type example_codec example_run example_world = Inr (Some XCTEST, x') \<and>
       test_type example_codec x' ui_world = Inr (Some XCTEST, x')"
    by (simp only: if_False) blast
  from test_type_inferred_and_memoized[OF ex_init ui_root ex_colon] b
  have 2: "\<exists>x'. test_type example_codec example_run ui_world = Inr (Some XCUITEST, x') \<and>
       test_type example_codec x' example_world = Inr (Some XCUITEST, x')"
    by (simp only: if_True) blast
  from 1 2 show ?thesis by (rule conjI)
qed

section \<open>Arguments of the app under test outside the UI-driven mode (C10)\<close>

text \<open>
  C10. On an object whose test type is not the UI-driven one (made from a document
  whose root value is a mapping, its root key without a colon), \<open>SetAppUnderTestArgs\<close>
  with a non-empty list is the same write as \<open>SetTestArgs\<close>: after \<open>SetTestArgs\<close> with
  one non-empty list and \<open>SetAppUnderTestArgs\<close> with another, the
  \<open>CommandLineArguments\<close> field holds the second list only.
\<close>

theorem SetAppUnderTestArgs_shares_field:
  assumes init: "XctestRun_init cd p tt w = Inr x"
    and root: "GetPlistField cd p (Some (xr_root_key x)) w = Inr (PDict d)"
    and colon: "CHR '':'' \<notin> set (xr_root_key x)"
    and non_ui: "tt \<noteq> Some XCUITEST"
    and ne: "args1 \<noteq> []" "args2 \<noteq> []"
  shows "\<exists>w1 w2. SetTestArgs cd x args1 w = Inr w1 \<and> SetAppUnderTestArgs cd x args2 w1 = Inr w2 \<and>
           SetAppUnderTestArgs cd x args2 w1 = SetTestArgs cd x args2 w1 \<and>
           GetXctestrunField cd x ''CommandLineArguments'' w1 = Inr (Some (PList (map PStr args1))) \<and>
           GetXctestrunField cd x ''CommandLineArguments'' w2 = Inr (Some (PList (map PStr args2)))"
proof -
  from init_shape[OF init root colon] have tt: "xr_test_type x = tt" by simp
  have nc: "CHR '':'' \<notin> set ''CommandLineArguments''" by simp
  have same: "SetAppUnderTestArgs cd x args2 v = SetTestArgs cd x args2 v" for v
    using non_ui tt by (simp add: SetAppUnderTestArgs_def SetTestArgs_def)
  from Set_field_twice[OF init root colon nc] ne same show ?thesis
    by (simp add: SetTestArgs_def)
qed

theorem SetAppUnderTestArgs_shares_field_witness:
  "\<exists>w1 w2. SetTestArgs example_codec example_run [''x''] example_world = Inr w1 \<and>
     SetAppUnderTestArgs example_codec example_run [''y''] w1 = Inr w2 \<and>
     GetXctestrunField example_codec example_run ''CommandLineArguments'' w2 = Inr (Some (PList [PStr ''y'']))"
proof -
  have "None \<noteq> Some XCUITEST" by simp
  from SetAppUnderTestArgs_shares_field[OF ex_init ex_root ex_colon this, of "[''x'']" "[''y'']"]
  show ?thesis by auto
qed

section \<open>Facts about effects\<close>

lemma bindIO_Inr_iff:
  "bindIO m f w = (Inr r, w') \<longleftrightarrow> (\<exists>v w1. m w = (Inr v, w1) \<and> f v w1 = (Inr r, w'))"
  by (auto simp: bindIO_def split: prod.splits sum.splits)

lemma bindIO_lastE:
  assumes "bindIO m f w = (Inr r, w')"
  obtains v w1 where "f v w1 = (Inr r, w')"
  using assms by (auto simp: bindIO_def split: prod.splits sum.splits)

lemma bindIO_InrE:
  assumes "bindIO m f w = (Inr r, w')"
  obtains v w1 where "m w = (Inr v, w1)" "f v w1 = (Inr r, w')"
  using assms by (auto simp: bindIO_def split: prod.splits sum.splits)

lemma need_Inr: "need v w = (Inr x, w') \<Longrightarrow> v = Some x \<and> w' = w"
  by (auto simp: need_def raiseIO_def returnIO_def split: option.splits)

lemma liftR_Inr: "liftR m w = (Inr v, w') \<Longrightarrow> m w = Inr v \<and> w' = w"
  by (auto simp: liftR_def)

lemma liftW_Inr: "liftW m w = (Inr v, w') \<Longrightarrow> m w = Inr w'"
  by (auto simp: liftW_def split: sum.splits)

section \<open>Logic tests need the simulator (C5)\<close>

text \<open>
  C5. A constructor call with the standalone logic-test mode and an SDK other than the
  simulator raises \<open>IllegalArgumentError\<close>, and the file system is as it was before
  the call.
\<close>

theorem logic_test_needs_simulator:
  assumes "sdk \<noteq> IPHONESIMULATOR"
  shows "\<exists>w'. XctestRunFactory_init app bundle sdk LOGIC_TEST signing wdir w = (Inl IllegalArgumentError, w')
           \<and> files w' = files w"
  using assms
  by (auto simp: XctestRunFactory_init_def ValidateArguments_def SUPPORTED_SDKS_def
      SUPPORTED_TEST_TYPES_def logging_info_def Let_def)

theorem logic_test_needs_simulator_witness:
  "\<exists>w'. XctestRunFactory_init None ''/b/MyTests.xctest'' IPHONEOS LOGIC_TEST None None example_world
          = (Inl IllegalArgumentError, w') \<and> files w' = files example_world"
proof -
  have "IPHONEOS \<noteq> IPHONESIMULATOR" by simp
  from logic_test_needs_simulator[OF this] show ?thesis .
qed

section \<open>Signing options on the simulator (C9)\<close>

text \<open>
  C9, evaluated on the code: a constructor call for the simulator with a non-empty
  signing-options mapping succeeds and stores the empty mapping, and it logs nothing;
  the message about signing options is logged by the call that passes none.
\<close>

theorem simulator_signing_options_not_logged:
  "(case XctestRunFactory_init None ''/b/MyTests.xctest'' IPHONESIMULATOR XCUITEST
           (Some [(''xctrunner_app_provisioning_profile'', PStr ''profile'')]) None example_world of
      (Inr f, w') \<Rightarrow> signing_options f = Some [] \<and> log w' = log example_world
    | (Inl e, w') \<Rightarrow> False)
   \<and> log (snd (XctestRunFactory_init None ''/b/MyTests.xctest'' IPHONESIMULATOR XCUITEST
           None None example_world))
      = [Info ''The signing options only works on sdk iphoneos, but current sdk is %s'' [IPHONESIMULATOR]]"
  by (simp add: XctestRunFactory_init_def ValidateArguments_def SUPPORTED_SDKS_def
      SUPPORTED_TEST_TYPES_def logging_info_def Let_def dict_truthy_def example_world_def)

section \<open>Harvesting the generated document (C2)\<close>

text \<open>
  C2, evaluated on the code. The build has left two generated documents in the products
  tree, \<open>First.xctestrun\<close> (root key \<open>MyTests\<close>) and \<open>Second.xctestrun\<close> (root key
  \<open>Other\<close>), and two runner applications. The scan for the runner application finds
  two and raises \<open>XctestrunError\<close>. The scan for the generated document finds two and
  does not raise, in either pipeline: the step moves the first document to the canonical
  root and returns the object opened on it, and the second document stays where it was.
\<close>

theorem harvest_xctestrun_two_documents:
  "glob_glob example_env (build_products_dir ''/w'' @ ''/Debug-*/*-Runner.app'') two_documents_world =
     [''/w/dummyproject_derived_data/Build/Products/Debug-iphonesimulator/First-Runner.app'',
      ''/w/dummyproject_derived_data/Build/Products/Debug-iphonesimulator/Second-Runner.app'']
   \<and> fst (xcuitest_harvest_runner example_env ui_harvest_factory two_documents_world)
       = Inl XctestrunError
   \<and> glob_glob example_env (build_products_dir ''/w'' @ ''/*.xctestrun'') two_documents_world =
     [''/w/dummyproject_derived_data/Build/Products/First.xctestrun'',
      ''/w/dummyproject_derived_data/Build/Products/Second.xctestrun'']
   \<and> fst (xctest_harvest_xctestrun example_env harvest_factory two_documents_world) =
       Inr (harvest_factory\<lparr>
         xctestrun_file_path := Some ''/w/TEST_ROOT/xctestrun.plist'',
         xctestrun_obj := Some \<lparr>xr_file_path = ''/w/TEST_ROOT/xctestrun.plist'',
           xr_root_key = ''MyTests'', xr_test_type = Some XCTEST\<rparr>\<rparr>)
   \<and> map_of (files (snd (xctest_harvest_xctestrun example_env harvest_factory two_documents_world)))
         ''/w/dummyproject_derived_data/Build/Products/Second.xctestrun''
       = Some (File (Doc (PDict [(''Other'', PDict [])])))
   \<and> fst (xcuitest_harvest_xctestrun example_env ui_harvest_factory ''/w/TEST_ROOT/Runner.app''
         two_documents_world) =
       Inr (ui_harvest_factory\<lparr>
         xctestrun_file_path := Some ''/w/TEST_ROOT/xctestrun.plist'',
         xctestrun_obj := Some \<lparr>xr_file_path = ''/w/TEST_ROOT/xctestrun.plist'',
           xr_root_key = ''MyTests'', xr_test_type = Some XCUITEST\<rparr>\<rparr>)
   \<and> map_of (files (snd (xcuitest_harvest_xctestrun example_env ui_harvest_factory
         ''/w/TEST_ROOT/Runner.app'' two_documents_world)))
         ''/w/dummyproject_derived_data/Build/Products/Second.xctestrun''
       = Some (File (Doc (PDict [(''Other'', PDict [])])))"
  by code_simp

section \<open>The placeholder for the canonical root (C1)\<close>

lemma sublist_tl: "sublist xs ys \<Longrightarrow> sublist xs (y # ys)"
  by (simp add: sublist_Cons_right)

text \<open>No beginning of the placeholder ends the name \<open>TEST_ROOT\<close> or ends with it.\<close>

lemma placeholder_prefix_apart:
  assumes "prefix p ''__TESTROOT__''" and "p \<noteq> []"
  shows "\<not> suffix p ''TEST_ROOT'' \<and> \<not> suffix ''TEST_ROOT'' p"
proof -
  have "\<forall>q \<in> set (prefixes ''__TESTROOT__''). q \<noteq> [] \<longrightarrow>
          \<not> suffix q ''TEST_ROOT'' \<and> \<not> suffix ''TEST_ROOT'' q"
    by code_simp
  moreover from assms(1) have "p \<in> set (prefixes ''__TESTROOT__'')"
    by (simp only: in_set_prefixes)
  ultimately show ?thesis using assms(2) by blast
qed

text \<open>A text \<open>p\<close> that ends a path ending with \<open>TEST_ROOT\<close>, and does not contain the
  placeholder: if the result of the scan starts with it, so does the text scanned.\<close>

lemma prefix_replace_scan:
  "new = ''__TESTROOT__'' \<Longrightarrow> \<not> sublist ''__TESTROOT__'' p \<Longrightarrow>
   suffix p ''TEST_ROOT'' \<or> suffix ''TEST_ROOT'' p \<Longrightarrow>
   prefix p (replace_scan old new s) \<Longrightarrow> prefix p s"
proof (induction old new s arbitrary: p rule: replace_scan.induct)
  case (1 old new)
  then show ?case by simp
next
  case (2 old new c cs)
  show ?case
  proof (cases "old \<noteq> [] \<and> prefix old (c # cs)")
    case True
    let ?r = "replace_scan old new (drop (length old) (c # cs))"
    have eq: "replace_scan old new (c # cs) = new @ ?r" using True by simp
    from "2.prems"(4) have "prefix p (new @ ?r)" by (simp only: eq)
    with "2.prems"(1) have "prefix p (''__TESTROOT__'' @ ?r)" by simp
    then have "prefix p ''__TESTROOT__'' \<or> (\<exists>us. p = ''__TESTROOT__'' @ us \<and> prefix us ?r)"
      by (simp only: prefix_append)
    then show ?thesis
    proof
      assume a: "prefix p ''__TESTROOT__''"
      show ?thesis
      proof (cases "p = []")
        case True
        then show ?thesis by simp
      next
        case False
        from placeholder_prefix_apart[OF a False] "2.prems"(3) show ?thesis by blast
      qed
    next
      assume "\<exists>us. p = ''__TESTROOT__'' @ us \<and> prefix us ?r"
      then obtain us where "p = ''__TESTROOT__'' @ us" by blast
      then have "prefix ''__TESTROOT__'' p" by simp
      then have "sublist ''__TESTROOT__'' p" by (rule prefix_imp_sublist)
      with "2.prems"(2) show ?thesis by simp
    qed
  next
    case False
    have eq: "replace_scan old new (c # cs) = c # replace_scan old new cs" using False by auto
    from "2.prems"(4) have pre: "prefix p (c # replace_scan old new cs)" by (simp only: eq)
    show ?thesis
    proof (cases p)
      case Nil
      then show ?thesis by simp
    next
      case (Cons x p')
      with pre have x: "x = c" and pre': "prefix p' (replace_scan old new cs)" by simp_all
      have a: "\<not> sublist ''__TESTROOT__'' p'"
      proof
        assume "sublist ''__TESTROOT__'' p'"
        then have "sublist ''__TESTROOT__'' (x # p')" by (rule sublist_tl)
        with "2.prems"(2) Cons show False by simp
      qed
      have b: "suffix p' ''TEST_ROOT'' \<or> suffix ''TEST_ROOT'' p'"
      proof -
        from "2.prems"(3) Cons
        have "suffix (x # p') ''TEST_ROOT'' \<or> suffix ''TEST_ROOT'' (x # p')" by simp
        then show ?thesis
        proof
          assume "suffix (x # p') ''TEST_ROOT''"
          then have "suffix p' ''TEST_ROOT''" by (rule suffix_ConsD)
          then show ?thesis ..
        next
          assume "suffix ''TEST_ROOT'' (x # p')"
          then have "''TEST_ROOT'' = x # p' \<or> suffix ''TEST_ROOT'' p'"
            by (simp only: suffix_Cons)
          then show ?thesis
          proof
            assume e: "''TEST_ROOT'' = x # p'"
            have "suffix p' (x # p')" by (rule suffix_ConsI) simp
            with e have "suffix p' ''TEST_ROOT''" by (simp only:)
            then show ?thesis ..
          next
            assume "suffix ''TEST_ROOT'' p'"
            then show ?thesis ..
          qed
        qed
      qed
      from "2.IH"(2)[OF False "2.prems"(1) a b pre'] have "prefix p' cs" .
      with Cons x show ?thesis by simp
    qed
  qed
qed

lemma replace_scan_no_occurrence:
  assumes "new = ''__TESTROOT__''" and "suffix ''TEST_ROOT'' old"
    and "\<not> sublist ''__TESTROOT__'' old"
    and "\<forall>s. s \<noteq> [] \<and> suffix s ''__TESTROOT__'' \<longrightarrow> \<not> prefix s old"
    and "\<not> sublist old new"
  shows "\<not> sublist old (replace_scan old new s)"
  using assms
proof (induction old new s rule: replace_scan.induct)
  case (1 old new)
  from "1.prems"(2) have "old \<noteq> []" by auto
  then show ?case by simp
next
  case (2 old new c cs)
  show ?case
  proof (cases "old \<noteq> [] \<and> prefix old (c # cs)")
    case True
    let ?r = "replace_scan old new (drop (length old) (c # cs))"
    have ih: "\<not> sublist old ?r"
      using "2.IH"(1)[OF True "2.prems"] .
    have eq: "replace_scan old new (c # cs) = new @ ?r" using True by simp
    show ?thesis
    proof
      assume "sublist old (replace_scan old new (c # cs))"
      then have "sublist old new \<or> sublist old ?r \<or>
          (\<exists>xs1 xs2. old = xs1 @ xs2 \<and> suffix xs1 new \<and> prefix xs2 ?r)"
        by (simp only: eq sublist_append)
      with ih "2.prems"(5) obtain xs1 xs2 where
        x: "old = xs1 @ xs2" "suffix xs1 new" "prefix xs2 ?r" by blast
      show False
      proof (cases "xs1 = []")
        case True
        with x have "prefix old ?r" by simp
        then have "sublist old ?r" by (rule prefix_imp_sublist)
        with ih show False by simp
      next
        case False
        from x(2) "2.prems"(1) have "suffix xs1 ''__TESTROOT__''" by simp
        with False "2.prems"(4) have "\<not> prefix xs1 old" by blast
        with x(1) show False by simp
      qed
    qed
  next
    case False
    have ih: "\<not> sublist old (replace_scan old new cs)"
      using "2.IH"(2)[OF False "2.prems"] .
    have eq: "replace_scan old new (c # cs) = c # replace_scan old new cs" using False by auto
    have ne: "old \<noteq> []" using "2.prems"(2) by auto
    show ?thesis
    proof
      assume "sublist old (replace_scan old new (c # cs))"
      then have "sublist old (c # replace_scan old new cs)" by (simp only: eq)
      with ih have "prefix old (c # replace_scan old new cs)"
        by (simp only: sublist_Cons_right) simp
      then have "prefix old (replace_scan old new (c # cs))" by (simp only: eq)
      then have "prefix old (c # cs)"
        by (rule prefix_replace_scan[OF "2.prems"(1) "2.prems"(3) disjI2[OF "2.prems"(2)]])
      with False ne show False by simp
    qed
  qed
qed

text \<open>
  The roots that are not \<open>placeholder_free\<close> are the roots for which some text is
  left with an occurrence of the root. A root that begins with an ending \<open>s\<close> of the
  placeholder is completed by the placeholder put before the rest of it; a root that
  contains the placeholder comes back when it stands between its own beginning and end.
\<close>

lemma replace_scan_short: "length s < length old \<Longrightarrow> replace_scan old new s = s"
proof (induction s)
  case Nil
  then show ?case by simp
next
  case (Cons c cs)
  from Cons.prems have "\<not> prefix old (c # cs)"
    using prefix_length_le[of old "c # cs"] by auto
  with Cons show ?case by simp
qed

lemma placeholder_ending_completes:
  assumes "s \<noteq> []" and "suffix s TESTROOT_RELATIVE_PATH" and "prefix s tr"
  shows "sublist tr (py_replace (tr @ drop (length s) tr) tr TESTROOT_RELATIVE_PATH)"
proof -
  let ?rest = "drop (length s) tr"
  from assms(1,3) have ne: "tr \<noteq> []" by auto
  from assms(3) have tr: "tr = s @ ?rest" by (auto simp: prefix_def)
  from assms(2) obtain t where t: "TESTROOT_RELATIVE_PATH = t @ s" by (auto simp: suffix_def)
  have short: "length ?rest < length tr" using assms(1) ne by simp
  obtain c cs where ccs: "tr @ ?rest = c # cs" using ne by (cases tr) auto
  have pre: "prefix tr (c # cs)" by (simp only: ccs[symmetric]) simp
  have "replace_scan tr TESTROOT_RELATIVE_PATH (c # cs)
        = TESTROOT_RELATIVE_PATH @ replace_scan tr TESTROOT_RELATIVE_PATH (drop (length tr) (c # cs))"
    using ne pre by simp
  then have "replace_scan tr TESTROOT_RELATIVE_PATH (tr @ ?rest)
        = TESTROOT_RELATIVE_PATH @
          replace_scan tr TESTROOT_RELATIVE_PATH (drop (length tr) (tr @ ?rest))"
    by (simp only: ccs)
  then have "replace_scan tr TESTROOT_RELATIVE_PATH (tr @ ?rest)
        = TESTROOT_RELATIVE_PATH @ replace_scan tr TESTROOT_RELATIVE_PATH ?rest"
    by simp
  also have "\<dots> = TESTROOT_RELATIVE_PATH @ ?rest"
    by (simp only: replace_scan_short[OF short])
  also have "\<dots> = t @ (s @ ?rest)" by (simp add: t)
  also have "\<dots> = t @ tr" using tr by simp
  finally have "py_replace (tr @ ?rest) tr TESTROOT_RELATIVE_PATH = t @ tr @ []"
    using ne by (simp add: py_replace_def)
  then show ?thesis by (simp only: sublist_appendI)
qed

lemma leftmost_occurrence:
  "sublist xs ys \<Longrightarrow> \<exists>ps ss. ys = ps @ xs @ ss \<and> (\<forall>i < length ps. \<not> prefix xs (drop i ys))"
proof (induction ys)
  case Nil
  then have "xs = []" by simp
  then show ?case by simp
next
  case (Cons y ys)
  show ?case
  proof (cases "prefix xs (y # ys)")
    case True
    then obtain ss where "y # ys = xs @ ss" by (auto simp: prefix_def)
    then have "y # ys = [] @ xs @ ss \<and> (\<forall>i < length ([]::'a list). \<not> prefix xs (drop i (y # ys)))"
      by simp
    then show ?thesis by blast
  next
    case False
    with Cons.prems have "sublist xs ys" by (simp add: sublist_Cons_right)
    from Cons.IH[OF this] obtain ps ss where a: "ys = ps @ xs @ ss"
      and b: "\<forall>i < length ps. \<not> prefix xs (drop i ys)" by blast
    have "y # ys = (y # ps) @ xs @ ss" using a by simp
    moreover have "\<forall>i < length (y # ps). \<not> prefix xs (drop i (y # ys))"
    proof (intro allI impI)
      fix i assume i: "i < length (y # ps)"
      show "\<not> prefix xs (drop i (y # ys))"
      proof (cases i)
        case 0
        with False show ?thesis by simp
      next
        case (Suc j)
        with i have "j < length ps" by simp
        with b Suc show ?thesis by simp
      qed
    qed
    ultimately show ?thesis by blast
  qed
qed

lemma replace_scan_skip:
  "\<forall>i < length ps. \<not> prefix old (drop i (ps @ s)) \<Longrightarrow>
   replace_scan old new (ps @ s) = ps @ replace_scan old new s"
proof (induction ps)
  case Nil
  show ?case by simp
next
  case (Cons p ps)
  have "0 < length (p # ps)" by simp
  with Cons.prems have "\<not> prefix old (drop 0 ((p # ps) @ s))" by blast
  then have n: "\<not> prefix old (p # ps @ s)" by simp
  have "\<forall>i < length ps. \<not> prefix old (drop i (ps @ s))"
  proof (intro allI impI)
    fix i assume "i < length ps"
    then have "Suc i < length (p # ps)" by simp
    with Cons.prems have "\<not> prefix old (drop (Suc i) ((p # ps) @ s))" by blast
    then show "\<not> prefix old (drop i (ps @ s))" by simp
  qed
  from Cons.IH[OF this] n show ?case by simp
qed

lemma replace_scan_head:
  assumes "old \<noteq> []"
  shows "replace_scan old new (old @ s) = new @ replace_scan old new s"
proof -
  obtain c cs where ccs: "old @ s = c # cs" using assms by (cases old) auto
  have pre: "prefix old (c # cs)" by (simp only: ccs[symmetric]) simp
  have "replace_scan old new (c # cs) = new @ replace_scan old new (drop (length old) (c # cs))"
    using assms pre by simp
  then have "replace_scan old new (old @ s) = new @ replace_scan old new (drop (length old) (old @ s))"
    by (simp only: ccs)
  then show ?thesis by simp
qed

lemma prefix_same_length: "prefix (a @ b) (c @ d) \<Longrightarrow> length a = length c \<Longrightarrow> prefix b d"
  by (auto simp: prefix_def)

lemma prefix_drop_append: "prefix (a @ b) w \<Longrightarrow> prefix b (drop (length a) w)"
  by (auto simp: prefix_def)

lemma test_root_shape:
  assumes "suffix ''TEST_ROOT'' tr"
  shows "tr \<noteq> [] \<and> last tr \<noteq> CHR ''/'' \<and> \<not> sublist tr ''__TESTROOT__''"
proof -
  from assms obtain a where tr: "tr = a @ ''TEST_ROOT''" by (auto simp: suffix_def)
  have "sublist ''T_R'' ''TEST_ROOT''" by code_simp
  moreover have "sublist ''TEST_ROOT'' tr" using assms by (rule suffix_imp_sublist)
  ultimately have s: "sublist ''T_R'' tr" by (rule sublist_order.order.trans)
  have n: "\<not> sublist ''T_R'' ''__TESTROOT__''" by code_simp
  have "\<not> sublist tr ''__TESTROOT__''"
  proof
    assume "sublist tr ''__TESTROOT__''"
    with s have "sublist ''T_R'' ''__TESTROOT__''" by (rule sublist_order.order.trans)
    with n show False by simp
  qed
  with tr show ?thesis by simp
qed

lemma prefix_short: "prefix xs (ys @ zs) \<Longrightarrow> length xs \<le> length ys \<Longrightarrow> prefix xs ys"
  by (auto simp: prefix_append)

lemma placeholder_inside_completes:
  assumes "sublist TESTROOT_RELATIVE_PATH tr"
  shows "\<exists>body. sublist tr (py_replace body tr TESTROOT_RELATIVE_PATH)"
proof -
  let ?T = TESTROOT_RELATIVE_PATH
  from leftmost_occurrence[OF assms] obtain P Q where tr: "tr = P @ ?T @ Q"
    and left: "\<forall>i < length P. \<not> prefix ?T (drop i tr)" by blast
  have lT: "length ?T = 12" by (simp add: TESTROOT_RELATIVE_PATH_def)
  have ne: "tr \<noteq> []" using tr lT by auto
  have no: "\<forall>i < length P. \<not> prefix tr (drop i (P @ (tr @ Q)))"
  proof (intro allI impI notI)
    fix i assume i: "i < length P" and pre: "prefix tr (drop i (P @ (tr @ Q)))"
    let ?k = "length P - i"
    have dP: "drop i (P @ (tr @ Q)) = drop i P @ (tr @ Q)" using i by simp
    have "tr = take ?k P @ (drop ?k P @ ?T @ Q)" using tr by simp
    with pre dP have "prefix (take ?k P @ (drop ?k P @ ?T @ Q)) (drop i P @ (tr @ Q))"
      by (simp only:)
    moreover have "length (take ?k P) = length (drop i P)" using i by simp
    ultimately have "prefix (drop ?k P @ ?T @ Q) (tr @ Q)" by (rule prefix_same_length)
    then have "prefix (?T @ Q) (drop (length (drop ?k P)) (tr @ Q))" by (rule prefix_drop_append)
    moreover have "length (drop ?k P) = i" using i by simp
    ultimately have "prefix (?T @ Q) (drop i (tr @ Q))" by simp
    then have "prefix ?T (drop i (tr @ Q))" by (rule append_prefixD)
    moreover have "i \<le> length tr" using i tr by simp
    ultimately have "prefix ?T (drop i tr @ Q)" by simp
    moreover have "length ?T \<le> length (drop i tr)" using i tr by simp
    ultimately have "prefix ?T (drop i tr)" by (rule prefix_short)
    with left i show False by blast
  qed
  have short: "length Q < length tr" using tr lT by simp
  have "replace_scan tr ?T (P @ (tr @ Q)) = P @ replace_scan tr ?T (tr @ Q)"
    by (rule replace_scan_skip[OF no])
  also have "\<dots> = P @ ?T @ replace_scan tr ?T Q"
    by (simp only: replace_scan_head[OF ne])
  also have "\<dots> = P @ ?T @ Q" by (simp only: replace_scan_short[OF short])
  also have "\<dots> = tr" using tr by simp
  finally have "py_replace (P @ (tr @ Q)) tr ?T = tr" using ne by (simp add: py_replace_def)
  then have "sublist tr (py_replace (P @ (tr @ Q)) tr ?T)" by simp
  then show ?thesis by blast
qed

lemma placeholder_free_no_occurrence:
  assumes "suffix ''TEST_ROOT'' tr" and "placeholder_free tr"
  shows "\<not> sublist tr (py_replace body tr TESTROOT_RELATIVE_PATH)"
proof -
  from test_root_shape[OF assms(1)] have
    s: "tr \<noteq> []" "\<not> sublist tr ''__TESTROOT__''" by simp_all
  from assms(2) have a: "\<not> sublist ''__TESTROOT__'' tr"
    by (simp add: placeholder_free_def TESTROOT_RELATIVE_PATH_def)
  have b: "\<forall>s. s \<noteq> [] \<and> suffix s ''__TESTROOT__'' \<longrightarrow> \<not> prefix s tr"
  proof (intro allI impI)
    fix s :: string
    assume h: "s \<noteq> [] \<and> suffix s ''__TESTROOT__''"
    then have "s \<in> set (suffixes ''__TESTROOT__'')" by (simp only: in_set_suffixes)
    with h have "s \<in> set placeholder_endings"
      unfolding placeholder_endings_def TESTROOT_RELATIVE_PATH_def
      by (simp only: set_filter mem_Collect_eq simp_thms)
    moreover from assms(2) have "\<forall>s \<in> set placeholder_endings. \<not> prefix s tr"
      by (simp add: placeholder_free_def list_all_iff)
    ultimately show "\<not> prefix s tr" by blast
  qed
  from replace_scan_no_occurrence[OF refl assms(1) a b s(2), of body] s(1)
  show ?thesis by (simp add: py_replace_def TESTROOT_RELATIVE_PATH_def)
qed

text \<open>The substitution leaves no occurrence of the root, in whatever text, exactly for
  the roots that are \<open>placeholder_free\<close>.\<close>

lemma placeholder_free_exact:
  assumes "suffix ''TEST_ROOT'' tr"
  shows "placeholder_free tr \<longleftrightarrow>
         (\<forall>body. \<not> sublist tr (py_replace body tr TESTROOT_RELATIVE_PATH))"
proof
  assume "placeholder_free tr"
  with assms show "\<forall>body. \<not> sublist tr (py_replace body tr TESTROOT_RELATIVE_PATH)"
    by (intro allI placeholder_free_no_occurrence)
next
  assume all: "\<forall>body. \<not> sublist tr (py_replace body tr TESTROOT_RELATIVE_PATH)"
  have a: "\<not> sublist TESTROOT_RELATIVE_PATH tr"
    using placeholder_inside_completes[of tr] all by blast
  have b: "\<forall>s \<in> set placeholder_endings. \<not> prefix s tr"
  proof (intro ballI notI)
    fix s assume s: "s \<in> set placeholder_endings" and p: "prefix s tr"
    from s have "s \<in> set (suffixes TESTROOT_RELATIVE_PATH) \<and> s \<noteq> []"
      by (simp add: placeholder_endings_def)
    then have ne: "s \<noteq> []" and su: "suffix s TESTROOT_RELATIVE_PATH"
      by (simp_all add: in_set_suffixes)
    from placeholder_ending_completes[OF ne su p] all show False by blast
  qed
  from a b show "placeholder_free tr" by (simp add: placeholder_free_def list_all_iff)
qed

text \<open>For a path that begins with a slash, \<open>placeholder_free\<close> says that the path
  does not contain the placeholder.\<close>

lemma placeholder_free_absolute:
  assumes "tr \<noteq> []" and "hd tr = CHR ''/''"
  shows "placeholder_free tr \<longleftrightarrow> \<not> sublist TESTROOT_RELATIVE_PATH tr"
proof -
  have e: "\<forall>s \<in> set placeholder_endings. s \<noteq> [] \<and> hd s \<noteq> CHR ''/''" by code_simp
  have "\<not> prefix s tr" if s: "s \<in> set placeholder_endings" for s
  proof
    assume p: "prefix s tr"
    from e s have ne: "s \<noteq> []" and h: "hd s \<noteq> CHR ''/''" by auto
    from p ne assms(1) have "hd tr = hd s" by (cases s; cases tr) auto
    with h assms(2) show False by simp
  qed
  then show ?thesis by (auto simp: placeholder_free_def list_all_iff)
qed

lemma logic_roots:
  "GenerateXctestrunFileForLogicTest env f w = (Inr f', w') \<Longrightarrow> same_roots f f'"
  by (auto simp: GenerateXctestrunFileForLogicTest_def bindIO_Inr_iff need_def returnIO_def
      raiseIO_def Let_def same_roots_def split: option.splits)

lemma xctest_harvest_roots:
  "xctest_harvest_xctestrun env f w = (Inr f', w') \<Longrightarrow> same_roots f f'"
  by (auto simp: xctest_harvest_xctestrun_def bindIO_Inr_iff need_def returnIO_def
      raiseIO_def Let_def same_roots_def split: option.splits list.splits)

lemma xctest_place_roots:
  "xctest_place_bundle env f w = (Inr f', w') \<Longrightarrow> same_roots f f'"
  by (auto simp: xctest_place_bundle_def bindIO_Inr_iff need_def returnIO_def
      raiseIO_def Let_def same_roots_def split: option.splits list.splits if_splits)

lemma xcuitest_harvest_roots:
  "xcuitest_harvest_xctestrun env f r w = (Inr f', w') \<Longrightarrow> same_roots f f'"
  by (auto simp: xcuitest_harvest_xctestrun_def bindIO_Inr_iff need_def returnIO_def
      raiseIO_def Let_def same_roots_def split: option.splits list.splits)

lemma xcuitest_runner_roots:
  "xcuitest_harvest_runner env f w = (Inr (f', r), w') \<Longrightarrow> same_roots f f'"
  unfolding xcuitest_harvest_runner_def
  by (auto elim!: bindIO_lastE simp: returnIO_def Let_def same_roots_def
      split: list.splits if_splits)

lemma same_roots_trans: "same_roots a b \<Longrightarrow> same_roots b c \<Longrightarrow> same_roots a c"
  by (simp add: same_roots_def)

lemma dispatch_roots: "dispatch env f w = (Inr f', w') \<Longrightarrow> same_roots f f'"
  by (auto simp: dispatch_def GenerateXctestrunFileForXcuitest_def GenerateXctestrunFileForXctest_def
      bindIO_Inr_iff returnIO_def same_roots_def[of f' f']
      intro: logic_roots same_roots_trans[OF xctest_place_roots xctest_harvest_roots]
             same_roots_trans[OF xcuitest_runner_roots xcuitest_harvest_roots]
      split: if_splits)

lemma MoveAndReplaceFile_result:
  "MoveAndReplaceFile env src dir w = (Inr b, w') \<Longrightarrow> b = join dir (basename src)"
  unfolding MoveAndReplaceFile_def Let_def
  by (elim bindIO_InrE) (simp add: returnIO_def)

text \<open>What the first part of \<open>GenerateXctestrun\<close> leaves in the factory when it
  returns.\<close>

lemma prepare_result:
  assumes "prepare_test_root env f w = (Inr f0, w0)"
  shows "\<exists>wd. work_dir f0 = Some wd \<and> test_root_dir f0 = Some (join wd ''TEST_ROOT'') \<and>
           test_bundle_dir f0 = join (join wd ''TEST_ROOT'') (basename (test_bundle_dir f)) \<and>
           f_test_type f0 = f_test_type f \<and> f_sdk f0 = f_sdk f \<and>
           xctestrun_obj f0 = xctestrun_obj f"
proof -
  from assms obtain f1 w1 wd w2 where
    first: "(case nonempty (work_dir f) of
          Some wd \<Rightarrow> (\<lambda>w. if \<not> os_path_exists env wd w
                             then bindIO (os_mkdir env wd) (\<lambda>u. returnIO f) w
                             else (Inr f, w))
        | None \<Rightarrow> bindIO (mkdtemp env)
                    (\<lambda>d. returnIO (f\<lparr>work_dir := Some d, delete_work_dir := True\<rparr>))) w = (Inr f1, w1)"
    and wd: "need (work_dir f1) w1 = (Inr wd, w2)"
    and rest: "(let tr = join wd ''TEST_ROOT''; f2 = f1\<lparr>test_root_dir := Some tr\<rparr> in
         bindIO (\<lambda>w. if \<not> os_path_exists env tr w then os_mkdir env tr w else (Inr (), w))
       (\<lambda>u. bindIO
         (case nonempty (app_under_test_dir f2) of
            Some app \<Rightarrow> bindIO (MoveAndReplaceFile env app tr)
                          (\<lambda>app'. returnIO (f2\<lparr>app_under_test_dir := Some app'\<rparr>))
          | None \<Rightarrow> returnIO f2)
       (\<lambda>f3. bindIO (MoveAndReplaceFile env (test_bundle_dir f3) tr)
       (\<lambda>bundle'. returnIO (f3\<lparr>test_bundle_dir := bundle'\<rparr>))))) w2 = (Inr f0, w0)"
    unfolding prepare_test_root_def by (elim bindIO_InrE) blast
  from first have f1: "test_bundle_dir f1 = test_bundle_dir f \<and> f_test_type f1 = f_test_type f \<and>
      f_sdk f1 = f_sdk f \<and> xctestrun_obj f1 = xctestrun_obj f"
    by (auto simp: returnIO_def elim!: bindIO_InrE split: option.splits if_splits)
  from need_Inr[OF wd] have w: "work_dir f1 = Some wd" by simp
  from rest obtain f3 w3 b w4 w5 where
    f3: "(case nonempty (app_under_test_dir (f1\<lparr>test_root_dir := Some (join wd ''TEST_ROOT'')\<rparr>)) of
            Some app \<Rightarrow> bindIO (MoveAndReplaceFile env app (join wd ''TEST_ROOT''))
                          (\<lambda>app'. returnIO (f1\<lparr>test_root_dir := Some (join wd ''TEST_ROOT''),
                               app_under_test_dir := Some app'\<rparr>))
          | None \<Rightarrow> returnIO (f1\<lparr>test_root_dir := Some (join wd ''TEST_ROOT'')\<rparr>)) w3 = (Inr f3, w4)"
    and mv: "MoveAndReplaceFile env (test_bundle_dir f3) (join wd ''TEST_ROOT'') w4 = (Inr b, w5)"
    and f0: "f0 = f3\<lparr>test_bundle_dir := b\<rparr>"
    unfolding Let_def by (elim bindIO_InrE) (auto simp: returnIO_def)
  from f3 have k: "work_dir f3 = work_dir f1 \<and> test_root_dir f3 = Some (join wd ''TEST_ROOT'') \<and>
      test_bundle_dir f3 = test_bundle_dir f1 \<and> f_test_type f3 = f_test_type f1 \<and>
      f_sdk f3 = f_sdk f1 \<and> xctestrun_obj f3 = xctestrun_obj f1"
    by (auto simp: returnIO_def elim!: bindIO_InrE split: option.splits)
  from MoveAndReplaceFile_result[OF mv] have "b = join (join wd ''TEST_ROOT'') (basename (test_bundle_dir f3))" .
  with w f0 f1 k show ?thesis by simp
qed

lemma write_file_read: "write_file p c w = Inr w' \<Longrightarrow> read_file w' p = Inr c"
proof -
  assume wr: "write_file p c w = Inr w'"
  show ?thesis
  proof (cases "stat w p")
    case None
    with wr have w': "w' = w\<lparr>files := AList.update p (File c) (files w)\<rparr>"
      by (auto simp: write_file_def split: if_splits)
    show ?thesis
      by (simp add: w' read_file_def stat_def update_conv' eval_nat_numeral)
  next
    case (Some a)
    obtain q nd where a: "a = (q, nd)" by (cases a)
    with Some wr obtain old where nd: "nd = File old"
      and w': "w' = w\<lparr>files := AList.update q (File c) (files w)\<rparr>"
      by (cases nd) (auto simp: write_file_def)
    from Some a nd have "follow 32 (files w) p = Some (q, File old)" by (simp add: stat_def)
    then have "follow 32 (AList.update q (File c) (files w)) p = Some (q, File c)"
      by (rule follow_update_file)
    then show ?thesis by (simp add: w' read_file_def stat_def)
  qed
qed

lemma read_text_of_read:
  "read_file w p = Inr (Doc d) \<Longrightarrow> read_text cd p w = Inr (serialise cd d)"
  "read_file w p = Inr (Text s) \<Longrightarrow> read_text cd p w = Inr s"
  by (simp_all add: read_text_def bindE_def)

lemma replace_test_root_Inr:
  assumes "replace_test_root env f w = (Inr u, w')"
  shows "\<exists>file tr text. xctestrun_file_path f = Some file \<and> test_root_dir f = Some tr \<and>
           read_text (plist_codec env) file w = Inr text \<and>
           read_text (plist_codec env) file w' = Inr (py_replace text tr TESTROOT_RELATIVE_PATH)"
proof -
  from assms obtain fp w1 tr w2 body w3 where
    a: "need (xctestrun_file_path f) w = (Inr fp, w1)"
    and b: "need (test_root_dir f) w1 = (Inr tr, w2)"
    and c: "liftR (read_text (plist_codec env) fp) w2 = (Inr body, w3)"
    and d: "liftW (write_file fp (Text (py_replace body tr TESTROOT_RELATIVE_PATH))) w3 = (Inr u, w')"
    unfolding replace_test_root_def by (elim bindIO_InrE) blast
  from need_Inr[OF a] need_Inr[OF b] liftR_Inr[OF c] have
    e: "xctestrun_file_path f = Some fp" "test_root_dir f = Some tr"
       "read_text (plist_codec env) fp w = Inr body" "w3 = w" by simp_all
  from liftW_Inr[OF d] e(4)
  have wr: "write_file fp (Text (py_replace body tr TESTROOT_RELATIVE_PATH)) w = Inr w'" by simp
  from write_file_read[OF wr]
  have "read_text (plist_codec env) fp w' = Inr (py_replace body tr TESTROOT_RELATIVE_PATH)"
    by (rule read_text_of_read(2))
  with e show ?thesis by simp
qed

lemma join_TEST_ROOT_suffix: "suffix ''TEST_ROOT'' (join wd ''TEST_ROOT'')"
  by (simp add: join_def suffix_def)

text \<open>
  C1, as the code has it. When a first call of \<open>GenerateXctestrun\<close> returns, the
  substitution has come last: with \<open>text\<close> the text of the document as the mode's
  pipeline left it (all fields set), the file then holds \<open>text\<close> with the occurrences
  of the canonical root's path \<open>tr\<close> (the working directory joined with
  \<open>TEST_ROOT\<close>) that a scan from the left finds replaced by \<open>__TESTROOT__\<close>. If \<open>tr\<close>
  does not contain the placeholder and does not begin with an ending of it (no path
  that begins with a slash does), no occurrence of \<open>tr\<close> is left in the file.
\<close>

theorem GenerateXctestrun_replaces_test_root:
  assumes fresh: "xctestrun_obj f = None"
    and gen: "GenerateXctestrun env f w = (Inr (x, f'), w')"
  shows "\<exists>wd tr file f0 w0 w1 text.
     prepare_test_root env f (logging_info ''Generating xctestrun file.'' [] w) = (Inr f0, w0) \<and>
     dispatch env f0 w0 = (Inr f', w1) \<and>
     work_dir f' = Some wd \<and> tr = join wd ''TEST_ROOT'' \<and> test_root_dir f' = Some tr \<and>
     xctestrun_file_path f' = Some file \<and>
     read_text (plist_codec env) file w1 = Inr text \<and>
     read_text (plist_codec env) file w' = Inr (py_replace text tr TESTROOT_RELATIVE_PATH) \<and>
     (placeholder_free tr \<longrightarrow> \<not> sublist tr (py_replace text tr TESTROOT_RELATIVE_PATH))"
proof -
  from gen fresh obtain f0 w0 f2 w1 u w2 x' w3 where
    p: "prepare_test_root env f (logging_info ''Generating xctestrun file.'' [] w) = (Inr f0, w0)"
    and d: "dispatch env f0 w0 = (Inr f2, w1)"
    and r: "replace_test_root env f2 w1 = (Inr u, w2)"
    and n: "need (xctestrun_obj f2) w2 = (Inr x', w3)"
    and fin: "returnIO (x', f2) w3 = (Inr (x, f'), w')"
    unfolding GenerateXctestrun_def by (simp only: option.case) (elim bindIO_InrE, blast)
  from fin need_Inr[OF n] have eq: "f2 = f'" "w2 = w'"
    by (simp_all add: returnIO_def)
  from prepare_result[OF p] obtain wd where
    wd: "work_dir f0 = Some wd" "test_root_dir f0 = Some (join wd ''TEST_ROOT'')" by blast
  from dispatch_roots[OF d] wd eq have
    roots: "work_dir f' = Some wd" "test_root_dir f' = Some (join wd ''TEST_ROOT'')"
    by (simp_all add: same_roots_def)
  from replace_test_root_Inr[OF r] roots eq obtain fp body where
    t: "xctestrun_file_path f' = Some fp"
       "read_text (plist_codec env) fp w1 = Inr body"
       "read_text (plist_codec env) fp w' =
          Inr (py_replace body (join wd ''TEST_ROOT'') TESTROOT_RELATIVE_PATH)"
    by auto
  have no: "\<not> sublist (join wd ''TEST_ROOT'')
              (py_replace body (join wd ''TEST_ROOT'') TESTROOT_RELATIVE_PATH)"
    if "placeholder_free (join wd ''TEST_ROOT'')"
    using join_TEST_ROOT_suffix that by (rule placeholder_free_no_occurrence)
  from p d eq roots t no show ?thesis by blast
qed

text \<open>A run with the working directory \<open>/t__k4\<close>, whose name holds two underscores in
  a row.\<close>

lemma underscore_run:
  "fst (GenerateXctestrun example_env underscore_factory start_world) =
     Inr (\<lparr>xr_file_path = ''/t__k4/TEST_ROOT/xctestrun.plist'', xr_root_key = ''MyTests'',
            xr_test_type = Some LOGIC_TEST\<rparr>,
          underscore_factory\<lparr>test_bundle_dir := ''/t__k4/TEST_ROOT/MyTests.xctest'',
            test_root_dir := Some ''/t__k4/TEST_ROOT'',
            xctestrun_file_path := Some ''/t__k4/TEST_ROOT/xctestrun.plist'',
            xctestrun_obj := Some \<lparr>xr_file_path = ''/t__k4/TEST_ROOT/xctestrun.plist'',
              xr_root_key = ''MyTests'', xr_test_type = Some LOGIC_TEST\<rparr>\<rparr>)"
  by code_simp

theorem GenerateXctestrun_replaces_test_root_witness:
  "xctestrun_obj underscore_factory = None
   \<and> \<not> isl (fst (GenerateXctestrun example_env underscore_factory start_world))
   \<and> placeholder_free ''/t__k4/TEST_ROOT''
   \<and> \<not> isl (read_text (plist_codec example_env) ''/t__k4/TEST_ROOT/xctestrun.plist''
         (snd (GenerateXctestrun example_env underscore_factory start_world)))
   \<and> \<not> sublist ''/t__k4/TEST_ROOT''
        (projr (read_text (plist_codec example_env) ''/t__k4/TEST_ROOT/xctestrun.plist''
           (snd (GenerateXctestrun example_env underscore_factory start_world))))"
proof -
  let ?G = "GenerateXctestrun example_env underscore_factory start_world"
  let ?x = "\<lparr>xr_file_path = ''/t__k4/TEST_ROOT/xctestrun.plist'', xr_root_key = ''MyTests'',
            xr_test_type = Some LOGIC_TEST\<rparr>"
  let ?f = "underscore_factory\<lparr>test_bundle_dir := ''/t__k4/TEST_ROOT/MyTests.xctest'',
            test_root_dir := Some ''/t__k4/TEST_ROOT'',
            xctestrun_file_path := Some ''/t__k4/TEST_ROOT/xctestrun.plist'',
            xctestrun_obj := Some ?x\<rparr>"
  have fresh: "xctestrun_obj underscore_factory = None"
    by (simp add: underscore_factory_def logic_factory_def)
  have g: "?G = (Inr (?x, ?f), snd ?G)"
    using underscore_run by (simp add: prod_eq_iff)
  from GenerateXctestrun_replaces_test_root[OF fresh g] obtain wd tr fp t0 where
    a: "work_dir ?f = Some wd" "tr = join wd ''TEST_ROOT''" "xctestrun_file_path ?f = Some fp"
       "read_text (plist_codec example_env) fp (snd ?G) = Inr (py_replace t0 tr TESTROOT_RELATIVE_PATH)"
       "placeholder_free tr \<longrightarrow> \<not> sublist tr (py_replace t0 tr TESTROOT_RELATIVE_PATH)"
    by blast
  from a(1) have "wd = ''/t__k4''" by (simp add: underscore_factory_def logic_factory_def)
  with a(2) have tr: "tr = ''/t__k4/TEST_ROOT''" by (simp add: join_def)
  from a(3) have fp: "fp = ''/t__k4/TEST_ROOT/xctestrun.plist''" by simp
  have c: "placeholder_free ''/t__k4/TEST_ROOT''" by code_simp
  with a(5) tr have "\<not> sublist ''/t__k4/TEST_ROOT'' (py_replace t0 ''/t__k4/TEST_ROOT'' TESTROOT_RELATIVE_PATH)"
    by simp
  with a(4) tr fp fresh underscore_run c show ?thesis by simp
qed

text \<open>C1 as stated fails: with the working directory \<open>/a__TESTROOT__\<close> and an SDK
  platform in \<open>/a/a__TESTROOT__/TEST_ROOT/TEST_ROOT\<close>, generation succeeds and the file
  it leaves holds the absolute path of the canonical root, \<open>/a__TESTROOT__/TEST_ROOT\<close>:
  the placeholder put in has made a new occurrence of it.\<close>

theorem GenerateXctestrun_test_root_remains:
  "\<not> isl (fst (GenerateXctestrun nested_env nested_factory start_world))
   \<and> read_text example_codec ''/a__TESTROOT__/TEST_ROOT/xctestrun.plist''
        (snd (GenerateXctestrun nested_env nested_factory start_world))
      = Inr ''<dict><key>MyTests</key><dict><key>TestBundlePath</key><string>__TESTROOT__/MyTests.xctest</string><key>TestHostPath</key><string>/Xcode/usr/bin/xctest</string><key>TestingEnvironmentVariables</key><dict><key>DYLD_FRAMEWORK_PATH</key><string>/a__TESTROOT__/TEST_ROOT/iPhoneSimulator.platform/Developer/Library/Frameworks</string><key>DYLD_LIBRARY_PATH</key><string>/a__TESTROOT__/TEST_ROOT/iPhoneSimulator.platform/Developer/Library/Frameworks</string></dict></dict></dict>''
   \<and> sublist ''/a__TESTROOT__/TEST_ROOT''
        (projr (read_text example_codec ''/a__TESTROOT__/TEST_ROOT/xctestrun.plist''
           (snd (GenerateXctestrun nested_env nested_factory start_world))))"
  by code_simp

text \<open>The substitution is of the canonical root's path only. With the working directory
  \<open>/w\<close> and an SDK platform in \<open>/w/Platforms\<close>, the file is left with paths in the
  working directory.\<close>

lemma GenerateXctestrun_beside_root:
  "read_text example_codec ''/w/TEST_ROOT/xctestrun.plist''
        (snd (GenerateXctestrun beside_env logic_factory start_world))
      = Inr ''<dict><key>MyTests</key><dict><key>TestBundlePath</key><string>__TESTROOT__/MyTests.xctest</string><key>TestHostPath</key><string>/Xcode/usr/bin/xctest</string><key>TestingEnvironmentVariables</key><dict><key>DYLD_FRAMEWORK_PATH</key><string>/w/Platforms/iPhoneSimulator.platform/Developer/Library/Frameworks</string><key>DYLD_LIBRARY_PATH</key><string>/w/Platforms/iPhoneSimulator.platform/Developer/Library/Frameworks</string></dict></dict></dict>''"
  by code_simp

section \<open>Generating the document of a logic test (C4)\<close>













text \<open>The same with no working directory given: the canonical root lies in the
  temporary directory.\<close>

lemma logic_run_temporary:
  "xr_root_key (fst (projr (fst (GenerateXctestrun example_env
       (projr (fst (XctestRunFactory_init None ''/b/MyTests.xctest'' IPHONESIMULATOR LOGIC_TEST
          None None temp_world)))
       (snd (XctestRunFactory_init None ''/b/MyTests.xctest'' IPHONESIMULATOR LOGIC_TEST
          None None temp_world)))))) = ''MyTests''
   \<and> read_text (plist_codec example_env) ''/tmp/tmpk3v9xq/TEST_ROOT/xctestrun.plist''
        (snd (GenerateXctestrun example_env
          (projr (fst (XctestRunFactory_init None ''/b/MyTests.xctest'' IPHONESIMULATOR LOGIC_TEST
             None None temp_world)))
          (snd (XctestRunFactory_init None ''/b/MyTests.xctest'' IPHONESIMULATOR LOGIC_TEST
             None None temp_world)))) =
        Inr ''<dict><key>MyTests</key><dict><key>TestBundlePath</key><string>__TESTROOT__/MyTests.xctest</string><key>TestHostPath</key><string>/Xcode/usr/bin/xctest</string><key>TestingEnvironmentVariables</key><dict><key>DYLD_FRAMEWORK_PATH</key><string>/Xcode/Platforms/iPhoneSimulator.platform/Developer/Library/Frameworks</string><key>DYLD_LIBRARY_PATH</key><string>/Xcode/Platforms/iPhoneSimulator.platform/Developer/Library/Frameworks</string></dict></dict></dict>''"
  by code_simp


end
